theory Spec2Isabelle
  imports Main "HOL-Library.Word"
begin

unbundle bit_operations_syntax

section \<open>The Mezmo log exporter (exporter/mezmoexporter/exporter.go)\<close>

text \<open>
  The exporter turns a batch of OpenTelemetry log records into Mezmo lines, packs their
  JSON encodings into documents of bounded size and posts each document to the ingestion
  endpoint. Go strings are byte sequences: a \<^typ>\<open>string\<close> here is the list of the bytes,
  and \<^const>\<open>length\<close> is Go's \<open>len\<close>.
\<close>

subsection \<open>Input data: pcommon values, log records, resource and scope groups\<close>

text \<open>
  A \<open>pcommon.Value\<close> is a tagged union. The values whose text the library computes by
  float formatting, JSON or base64 (doubles, maps, slices, byte arrays) carry that text.
\<close>

datatype Value =
    ValueEmpty
  | ValueStr string
  | ValueBool bool
  | ValueInt int
  | ValueDouble string
  | ValueMap string
  | ValueSlice string
  | ValueBytes string

text \<open>\<open>Value.Str\<close>: the string of a string value, the empty string for every other type.\<close>

fun Str :: "Value \<Rightarrow> string" where
  "Str (ValueStr s) = s"
| "Str _ = []"

text \<open>\<open>strconv.FormatInt(n, 10)\<close>.\<close>

fun FormatNat :: "nat \<Rightarrow> string" where
  "FormatNat n =
     (if n < 10 then [''0123456789'' ! n]
      else FormatNat (n div 10) @ [''0123456789'' ! (n mod 10)])"

declare FormatNat.simps [simp del]

definition FormatInt :: "int \<Rightarrow> string" where
  "FormatInt n = (if n < 0 then CHR ''-'' # FormatNat (nat (- n)) else FormatNat (nat n))"

text \<open>\<open>Value.AsString\<close>: the string representation of a value of any type.\<close>

fun AsString :: "Value \<Rightarrow> string" where
  "AsString ValueEmpty = []"
| "AsString (ValueStr s) = s"
| "AsString (ValueBool b) = (if b then ''true'' else ''false'')"
| "AsString (ValueInt n) = FormatInt n"
| "AsString (ValueDouble t) = t"
| "AsString (ValueMap t) = t"
| "AsString (ValueSlice t) = t"
| "AsString (ValueBytes t) = t"

text \<open>
  A \<open>pcommon.Map\<close> is a sequence of key/value pairs: \<open>Get\<close> returns the first pair with
  the key, \<open>Range\<close> visits the pairs in order.
\<close>

type_synonym Map = "(string \<times> Value) list"

definition Get :: "Map \<Rightarrow> string \<Rightarrow> Value option" where
  "Get m k = map_of m k"

fun Range :: "Map \<Rightarrow> (string \<Rightarrow> Value \<Rightarrow> 's \<Rightarrow> 's) \<Rightarrow> 's \<Rightarrow> 's" where
  "Range [] f s = s"
| "Range ((k, v) # m) f s = Range m f (f k v s)"

text \<open>
  A log record. The timestamp is in nanoseconds since the epoch (\<open>uint64\<close>); the trace
  and span identifiers are byte arrays (16 and 8 bytes).
\<close>

record logRecord =
  recTimestamp :: "64 word"
  recSeverityText :: string
  recBody :: Value
  recTraceID :: "8 word list"
  recSpanID :: "8 word list"
  recAttributes :: Map

record scopeLogs =
  LogRecords :: "logRecord list"

record resourceLogs =
  Resource :: Map
  ScopeLogs :: "scopeLogs list"

text \<open>\<open>TraceID.IsEmpty\<close>, \<open>SpanID.IsEmpty\<close>: every byte is zero.\<close>

definition IsEmpty :: "8 word list \<Rightarrow> bool" where
  "IsEmpty bs = list_all (\<lambda>b. b = 0) bs"

text \<open>\<open>hex.EncodeToString\<close>: two digits of the lowercase table for every byte.\<close>

definition hextable :: string where
  "hextable = ''0123456789abcdef''"

fun EncodeToString :: "8 word list \<Rightarrow> string" where
  "EncodeToString [] = []"
| "EncodeToString (b # bs) =
     hextable ! unat (drop_bit 4 b) # hextable ! unat (b AND 0x0f) # EncodeToString bs"

text \<open>
  \<open>Timestamp.AsTime().UTC().UnixMilli()\<close>: the nanoseconds are read as \<open>int64\<close> and
  divided by a million, rounding down.
\<close>

definition UnixMilli :: "64 word \<Rightarrow> int" where
  "UnixMilli ts = sint ts div 1000000"

subsection \<open>Output data: lines, requests, responses\<close>

record mezmoLogLine =
  Timestamp :: int
  Line :: string
  App :: string
  Level :: string
  Meta :: "string \<rightharpoonup> string"

text \<open>
  A request as \<open>sendLinesToMezmo\<close> builds it. \<open>reqHeader\<close> lists the \<open>Header.Add\<close>
  calls in order. \<open>reqDocument\<close> is a history field: the buffer \<open>b\<close> the body was made
  from, which is the body itself when compression is off.
\<close>

record request =
  reqMethod :: string
  reqURL :: string
  reqHeader :: "(string \<times> string) list"
  reqBody :: string
  reqDocument :: string

text \<open>
  A response: \<open>respBody\<close> is what reading the body yields, \<open>respClose\<close> the error of
  \<open>Body.Close()\<close> if it has one.
\<close>

record response =
  StatusCode :: int
  Status :: string
  respBody :: string
  respClose :: "string option"

datatype error =
    ErrCreatingJSON string
  | ErrCompress string
  | ErrPost string
  | ErrClose string

datatype logEntry =
    LogError string
  | LogDebug string string

text \<open>
  What a push leaves behind: the requests handed to the HTTP client, the entries written
  to the logger and the number of response bodies closed.
\<close>

record world =
  requests :: "request list"
  logs :: "logEntry list"
  closed :: nat

subsection \<open>The exporter and what it takes from outside this file\<close>

record Config =
  IngestURL :: string
  IngestKey :: string
  Compression :: bool

text \<open>
  \<open>client\<close> is \<open>m.client.Do\<close>: given the requests made so far and a request, a transport
  error or a response. \<open>logDebug\<close> says whether the logger is enabled at debug level.
\<close>

record mezmoExporter =
  config :: Config
  userAgentString :: string
  client :: "request list \<Rightarrow> request \<Rightarrow> string + response"
  logDebug :: bool

text \<open>
  The \<open>compress/gzip\<close> library, as the exporter uses it: \<open>gzipWrite z p\<close> is the error
  of \<open>Write(p)\<close> on a new writer or the bytes it put into the buffer, \<open>gzipClose z p\<close>
  the bytes \<open>Close()\<close> adds after it, and \<open>gzipRead z s\<close> what a gzip reader gives for
  the stream \<open>s\<close>, if \<open>s\<close> is a valid stream. The writer writes into a
  \<open>bytes.Buffer\<close>, whose \<open>Write\<close> returns no error, so after a \<open>Write\<close> that succeeded
  \<open>Close()\<close> returns none either (the exporter discards its result). The library is
  taken as correct: the bytes of a \<open>Write\<close> that succeeded, followed by those of
  \<open>Close()\<close>, are a stream that reads back as what was written.
\<close>

typedef gzipLib =
  "{(wr :: string \<Rightarrow> string + string, cl :: string \<Rightarrow> string, rd :: string \<Rightarrow> string option).
      \<forall>p buf. wr p = Inr buf \<longrightarrow> rd (buf @ cl p) = Some p}"
  by (rule exI [of _ "(\<lambda>p. Inl [], \<lambda>p. [], \<lambda>s. None)"]) simp

setup_lifting type_definition_gzipLib

lift_definition gzipWrite :: "gzipLib \<Rightarrow> string \<Rightarrow> string + string"
  is "\<lambda>(wr, cl, rd). wr" .

lift_definition gzipClose :: "gzipLib \<Rightarrow> string \<Rightarrow> string"
  is "\<lambda>(wr, cl, rd). cl" .

lift_definition gzipRead :: "gzipLib \<Rightarrow> string \<Rightarrow> string option"
  is "\<lambda>(wr, cl, rd). rd" .

text \<open>
  The constants of the package's configuration file and the other library calls are taken
  as parameters: the five size limits; \<open>json.Marshal\<close> on a line; \<open>timeNow n\<close>, the
  reading of \<open>time.Now().UTC().UnixMilli()\<close> while the record number \<open>n\<close> of the push is
  converted; and the path of the parsed ingestion URL. The URL is validated when the
  configuration is loaded, so \<open>http.NewRequest\<close> does not fail.
\<close>

record runtime =
  maxBodySize :: int
  maxMessageSize :: nat
  maxAppnameLen :: nat
  maxLogLevelLen :: nat
  maxMetaDataSize :: nat
  jsonMarshal :: "mezmoLogLine \<Rightarrow> string + string"
  gzip :: gzipLib
  timeNow :: "nat \<Rightarrow> int"
  urlPath :: "string \<Rightarrow> string"

text \<open>
  Modelled from the spec: \<open>truncateString\<close> is defined in another file of the package.
  The spec has every field "length-truncated to fixed maxima", and truncating a truncated
  string changes nothing: a string longer than the bound is cut to its first \<open>maxLen\<close> bytes.
\<close>

definition truncateString :: "string \<Rightarrow> nat \<Rightarrow> string" where
  "truncateString s maxLen = (if length s > maxLen then take maxLen s else s)"

subsection \<open>Converting records to lines (logDataToMezmo, lines 88 to 143)\<close>

text \<open>The body of the innermost loop: one record, under the host name of its resource.\<close>

definition convertRecord :: "runtime \<Rightarrow> int \<Rightarrow> Value option \<Rightarrow> logRecord \<Rightarrow> mezmoLogLine" where
  "convertRecord rt now resourceHostName log =
     (let attrs = Map.empty;
          attrs = (case resourceHostName of
                     Some h \<Rightarrow> attrs(''hostname'' \<mapsto> AsString h)
                   | None \<Rightarrow> attrs);
          attrs = (if \<not> IsEmpty (recTraceID log)
                   then attrs(''trace.id'' \<mapsto> EncodeToString (recTraceID log)) else attrs);
          attrs = (if \<not> IsEmpty (recSpanID log)
                   then attrs(''span.id'' \<mapsto> EncodeToString (recSpanID log)) else attrs);
          attrs = Range (recAttributes log)
                    (\<lambda>k v a. a(k \<mapsto> truncateString (Str v) (maxMetaDataSize rt))) attrs;
          app = (case Get (recAttributes log) ''appname'' of Some s \<Rightarrow> Str s | None \<Rightarrow> []);
          tstamp = UnixMilli (recTimestamp log);
          tstamp = (if tstamp = 0 then now else tstamp);
          logLevel = truncateString (recSeverityText log) (maxLogLevelLen rt);
          logLevel = (if logLevel = [] then ''info'' else logLevel)
      in \<lparr>Timestamp = tstamp,
          Line = truncateString (Str (recBody log)) (maxMessageSize rt),
          App = truncateString app (maxAppnameLen rt),
          Level = logLevel,
          Meta = attrs\<rparr>)"

text \<open>The three loops, each appending to \<open>lines\<close>.\<close>

fun convertRecords ::
  "runtime \<Rightarrow> Value option \<Rightarrow> logRecord list \<Rightarrow> mezmoLogLine list \<Rightarrow> mezmoLogLine list" where
  "convertRecords rt host [] lines = lines"
| "convertRecords rt host (log # rest) lines =
     convertRecords rt host rest
       (lines @ [convertRecord rt (timeNow rt (length lines)) host log])"

fun convertScopes ::
  "runtime \<Rightarrow> Value option \<Rightarrow> scopeLogs list \<Rightarrow> mezmoLogLine list \<Rightarrow> mezmoLogLine list" where
  "convertScopes rt host [] lines = lines"
| "convertScopes rt host (sl # sls) lines =
     convertScopes rt host sls (convertRecords rt host (LogRecords sl) lines)"

fun convertResources ::
  "runtime \<Rightarrow> resourceLogs list \<Rightarrow> mezmoLogLine list \<Rightarrow> mezmoLogLine list" where
  "convertResources rt [] lines = lines"
| "convertResources rt (rl # rls) lines =
     convertResources rt rls
       (convertScopes rt (Get (Resource rl) ''host.name'') (ScopeLogs rl) lines)"

subsection \<open>Sending one document (sendLinesToMezmo)\<close>

text \<open>Lines 180 to 193: the reader \<open>r\<close> of the request, the buffer or its compression.\<close>

definition requestBody :: "runtime \<Rightarrow> mezmoExporter \<Rightarrow> string \<Rightarrow> error + string" where
  "requestBody rt m b =
     (if Compression (config m) then
        (case gzipWrite (gzip rt) b of
           Inl err \<Rightarrow> Inl (ErrCompress err)
         | Inr buf \<Rightarrow> Inr (buf @ gzipClose (gzip rt) b))
      else Inr b)"

text \<open>Lines 194 to 201.\<close>

definition newRequest :: "mezmoExporter \<Rightarrow> string \<Rightarrow> string \<Rightarrow> request" where
  "newRequest m b r =
     \<lparr>reqMethod = ''POST'',
      reqURL = IngestURL (config m),
      reqHeader =
        [(''Accept'', ''application/json''),
         (''Content-Type'', ''application/json''),
         (''User-Agent'', userAgentString m),
         (''apikey'', IngestKey (config m))]
        @ (if Compression (config m) then [(''Content-Encoding'', ''gzip'')] else []),
      reqBody = r,
      reqDocument = b\<rparr>"

text \<open>Lines 207 to 215: the log entries for a status of 400 or more, then the close.\<close>

definition handleResponse ::
  "runtime \<Rightarrow> mezmoExporter \<Rightarrow> response \<Rightarrow> world \<Rightarrow> error option \<times> world" where
  "handleResponse rt m res w =
     (let w = (if StatusCode res \<ge> 400 then
                 (let w = w\<lparr>logs := logs w @
                            [LogError (''got http status ('' @ urlPath rt (IngestURL (config m))
                                        @ ''): '' @ Status res)]\<rparr>
                  in if logDebug m
                     then w\<lparr>logs := logs w @ [LogDebug ''http response'' (respBody res)]\<rparr>
                     else w)
               else w)
      in (map_option ErrClose (respClose res), w\<lparr>closed := closed w + 1\<rparr>))"

definition sendLinesToMezmo ::
  "runtime \<Rightarrow> mezmoExporter \<Rightarrow> string \<Rightarrow> world \<Rightarrow> error option \<times> world" where
  "sendLinesToMezmo rt m b w =
     (case requestBody rt m b of
        Inl e \<Rightarrow> (Some e, w)
      | Inr r \<Rightarrow>
          (let req = newRequest m b r;
               w' = w\<lparr>requests := requests w @ [req]\<rparr>
           in case client m (requests w) req of
                Inl errs \<Rightarrow> (Some (ErrPost errs), w')
              | Inr res \<Rightarrow> handleResponse rt m res w'))"

subsection \<open>Assembling the documents (logDataToMezmo, lines 145 to 176)\<close>

definition docOpen :: string where
  \<open>docOpen = ''{"lines": [''\<close>

definition docClose :: string where
  "docClose = '']}''"

text \<open>
  The loop over the lines: \<open>i\<close> is the index of the line, \<open>b\<close> the buffer. It ends with
  the error that stopped it or with the buffer left to close.
\<close>

fun sendBatches ::
  "runtime \<Rightarrow> mezmoExporter \<Rightarrow> nat \<Rightarrow> mezmoLogLine list \<Rightarrow> string \<Rightarrow> world
   \<Rightarrow> (error + string) \<times> world" where
  "sendBatches rt m i [] b w = (Inr b, w)"
| "sendBatches rt m i (line # lines) b w =
     (let b = (if i > 0 then b @ '','' else b) in
      case jsonMarshal rt line of
        Inl errs \<Rightarrow> (Inl (ErrCreatingJSON errs), w)
      | Inr lineBytes \<Rightarrow>
          if int (length b) + int (length lineBytes) \<ge> maxBodySize rt - 2 then
            (case sendLinesToMezmo rt m (b @ docClose) w of
               (Some errs, w') \<Rightarrow> (Inl errs, w')
             | (None, w') \<Rightarrow> sendBatches rt m (Suc i) lines (docOpen @ lineBytes) w')
          else sendBatches rt m (Suc i) lines (b @ lineBytes) w)"

definition logDataToMezmo ::
  "runtime \<Rightarrow> mezmoExporter \<Rightarrow> resourceLogs list \<Rightarrow> world \<Rightarrow> error option \<times> world" where
  "logDataToMezmo rt m ld w =
     (let lines = convertResources rt ld [] in
      case sendBatches rt m 0 lines docOpen w of
        (Inl errs, w') \<Rightarrow> (Some errs, w')
      | (Inr b, w') \<Rightarrow> sendLinesToMezmo rt m (b @ docClose) w')"

definition pushLogData ::
  "runtime \<Rightarrow> mezmoExporter \<Rightarrow> resourceLogs list \<Rightarrow> world \<Rightarrow> error option \<times> world" where
  "pushLogData rt m ld w = logDataToMezmo rt m ld w"

subsection \<open>The documents the spec describes\<close>

text \<open>
  The spec's document: the opening \<open>{"lines": [\<close>, the encoded lines separated by
  commas, the closing \<open>]}\<close>.
\<close>

fun commaSep :: "string list \<Rightarrow> string" where
  "commaSep [] = []"
| "commaSep [x] = x"
| "commaSep (x # y # ys) = x @ '','' @ commaSep (y # ys)"

definition document :: "string list \<Rightarrow> string" where
  "document encs = docOpen @ commaSep encs @ docClose"

text \<open>
  What the loop sends when it closes a document before the end of the input: the same
  text, with a comma after the last line when there is one.
\<close>

definition flushedDocument :: "string list \<Rightarrow> string" where
  "flushedDocument encs = docOpen @ commaSep encs @ (if encs = [] then [] else '','') @ docClose"

text \<open>A text that ends with a comma before the closing \<open>]}\<close>.\<close>

definition trailingComma :: "string \<Rightarrow> bool" where
  "trailingComma d = (drop (length d - 3) d = '',]}'')"

text \<open>The encoding of a line, empty where \<open>json.Marshal\<close> fails.\<close>

definition encoded :: "runtime \<Rightarrow> mezmoLogLine \<Rightarrow> string" where
  "encoded rt line = (case jsonMarshal rt line of Inl _ \<Rightarrow> [] | Inr lineBytes \<Rightarrow> lineBytes)"

text \<open>
  A text carries a run of lines when it starts with the opening and the encodings of the
  lines of the run separated by commas, and, unless it ends with a comma before the
  closing, is the spec's document of the run.
\<close>

definition linesText :: "runtime \<Rightarrow> mezmoLogLine list \<Rightarrow> string" where
  "linesText rt run = docOpen @ commaSep (map (encoded rt) run)"

definition carries :: "runtime \<Rightarrow> string \<Rightarrow> mezmoLogLine list \<Rightarrow> bool" where
  "carries rt d run =
     (take (length (linesText rt run)) d = linesText rt run
      \<and> (\<not> trailingComma d \<longrightarrow> d = document (map (encoded rt) run)))"

text \<open>The requests a push adds to those made before it.\<close>

definition issued :: "world \<Rightarrow> world \<Rightarrow> request list" where
  "issued w w' = drop (length (requests w)) (requests w')"

text \<open>A request as \<open>sendLinesToMezmo\<close> makes it of its document.\<close>

definition madeFrom :: "runtime \<Rightarrow> mezmoExporter \<Rightarrow> request \<Rightarrow> bool" where
  "madeFrom rt m req =
     (requestBody rt m (reqDocument req) = Inr (reqBody req)
      \<and> req = newRequest m (reqDocument req) (reqBody req))"

text \<open>
  The records of a batch in the order of the three loops, each with the host name of its
  resource, and the lines the spec expects of them: record number \<open>n\<close> converted at the
  clock reading \<open>timeNow n\<close>.
\<close>

definition recordsOf :: "resourceLogs list \<Rightarrow> (Value option \<times> logRecord) list" where
  "recordsOf ld =
     concat (map (\<lambda>rl. concat (map (\<lambda>sl. map (Pair (Get (Resource rl) ''host.name''))
                                             (LogRecords sl))
                                   (ScopeLogs rl)))
                 ld)"

fun normalizeFrom :: "runtime \<Rightarrow> nat \<Rightarrow> (Value option \<times> logRecord) list \<Rightarrow> mezmoLogLine list" where
  "normalizeFrom rt n [] = []"
| "normalizeFrom rt n ((host, log) # rest) =
     convertRecord rt (timeNow rt n) host log # normalizeFrom rt (Suc n) rest"

definition normalized :: "runtime \<Rightarrow> resourceLogs list \<Rightarrow> mezmoLogLine list" where
  "normalized rt ld = normalizeFrom rt 0 (recordsOf ld)"

text \<open>
  The meta entries that come from the resource and from the identifiers of the record,
  before the attributes of the record are merged in.
\<close>

definition derivedMeta :: "Value option \<Rightarrow> logRecord \<Rightarrow> string \<rightharpoonup> string" where
  "derivedMeta host log k =
     (if k = ''span.id'' \<and> \<not> IsEmpty (recSpanID log) then Some (EncodeToString (recSpanID log))
      else if k = ''trace.id'' \<and> \<not> IsEmpty (recTraceID log) then Some (EncodeToString (recTraceID log))
      else if k = ''hostname'' then map_option AsString host
      else None)"

text \<open>\<open>Value.Type() == ValueTypeStr\<close>.\<close>

definition isStr :: "Value \<Rightarrow> bool" where
  "isStr v = (case v of ValueStr _ \<Rightarrow> True | _ \<Rightarrow> False)"

subsection \<open>A concrete exporter to run the definitions on\<close>

text \<open>
  An encoder for concrete lines: the text \<open>json.Marshal\<close> gives for a line whose strings
  need no escape and whose meta keys are among \<open>hostname\<close>, \<open>span.id\<close> and \<open>trace.id\<close>
  (the library writes the keys of a map in sorted order).
\<close>

definition quoted :: "string \<Rightarrow> string" where
  \<open>quoted s = ''"'' @ s @ ''"''\<close>

definition plainMeta :: "(string \<rightharpoonup> string) \<Rightarrow> string" where
  "plainMeta a =
     commaSep (concat (map (\<lambda>k. case a k of None \<Rightarrow> [] | Some v \<Rightarrow> [quoted k @ '':'' @ quoted v])
                           [''hostname'', ''span.id'', ''trace.id'']))"

definition plainMarshal :: "mezmoLogLine \<Rightarrow> string + string" where
  \<open>plainMarshal l =
     Inr (''{"timestamp":'' @ FormatInt (Timestamp l)
          @ '',"line":'' @ quoted (Line l)
          @ '',"app":'' @ quoted (App l)
          @ '',"level":'' @ quoted (Level l)
          @ '',"meta":{'' @ plainMeta (Meta l) @ ''}}'')\<close>

text \<open>
  Two stand-ins for the gzip library: one that frames what is written between \<open>GZ\<close> and
  \<open>ZG\<close> and reads a framed stream back, and one whose \<open>Write\<close> fails.
\<close>

definition sampleGunzip :: "string \<Rightarrow> string option" where
  "sampleGunzip s =
     (if take 2 s = ''GZ'' \<and> drop (length s - 2) s = ''ZG''
      then Some (take (length s - 4) (drop 2 s)) else None)"

lift_definition sampleGzip :: gzipLib
  is "(\<lambda>p. Inr (''GZ'' @ p), \<lambda>p. ''ZG'', sampleGunzip)"
  by (simp add: sampleGunzip_def)

lift_definition failingGzip :: gzipLib
  is "(\<lambda>p. Inl ''gzip: invalid header'', \<lambda>p. [], \<lambda>s. None)"
  by simp

text \<open>A runtime with sample limits, the body limit left open.\<close>

definition sampleRuntime :: "int \<Rightarrow> runtime" where
  "sampleRuntime bodyLimit =
     \<lparr>maxBodySize = bodyLimit,
      maxMessageSize = 16384,
      maxAppnameLen = 512,
      maxLogLevelLen = 80,
      maxMetaDataSize = 32768,
      jsonMarshal = plainMarshal,
      gzip = sampleGzip,
      timeNow = (\<lambda>n. 1700000000000 + int n),
      urlPath = (\<lambda>u. ''/otel/ingest/rest'')\<rparr>"

definition okResponse :: response where
  "okResponse = \<lparr>StatusCode = 200, Status = ''200 OK'', respBody = [], respClose = None\<rparr>"

definition sampleExporter :: mezmoExporter where
  "sampleExporter =
     \<lparr>config = \<lparr>IngestURL = ''https://logs.mezmo.com/otel/ingest/rest'',
                IngestKey = ''0123'',
                Compression = False\<rparr>,
      userAgentString = ''mezmo-otel-exporter/0.1'',
      client = (\<lambda>made req. Inr okResponse),
      logDebug = False\<rparr>"

text \<open>
  Variants of an exporter: compression switched on or off, an endpoint that cannot be
  reached, and an endpoint that answers every request with status 500.
\<close>

definition withoutCompression :: "mezmoExporter \<Rightarrow> mezmoExporter" where
  "withoutCompression m = m\<lparr>config := (config m)\<lparr>Compression := False\<rparr>\<rparr>"

definition withCompression :: "mezmoExporter \<Rightarrow> mezmoExporter" where
  "withCompression m = m\<lparr>config := (config m)\<lparr>Compression := True\<rparr>\<rparr>"

definition refusing :: "mezmoExporter \<Rightarrow> mezmoExporter" where
  "refusing m = m\<lparr>client := (\<lambda>made req. Inl ''connection refused'')\<rparr>"

definition rejecting :: "mezmoExporter \<Rightarrow> mezmoExporter" where
  "rejecting m =
     m\<lparr>client := (\<lambda>made req. Inr \<lparr>StatusCode = 500, Status = ''500 Internal Server Error'',
                                    respBody = ''overloaded'', respClose = None\<rparr>)\<rparr>"

definition emptyWorld :: world where
  "emptyWorld = \<lparr>requests = [], logs = [], closed = 0\<rparr>"

definition sampleRecord :: "64 word \<Rightarrow> string \<Rightarrow> logRecord" where
  "sampleRecord ns body =
     \<lparr>recTimestamp = ns,
      recSeverityText = [],
      recBody = ValueStr body,
      recTraceID = replicate 16 0,
      recSpanID = replicate 8 0,
      recAttributes = []\<rparr>"

definition sampleBatch :: "logRecord list \<Rightarrow> resourceLogs list" where
  "sampleBatch recs = [\<lparr>Resource = [], ScopeLogs = [\<lparr>LogRecords = recs\<rparr>]\<rparr>]"

text \<open>
  A batch of three records: two in the two scopes of a resource with a host name, one in a
  resource without.
\<close>

definition scenarioBatch :: "resourceLogs list" where
  "scenarioBatch =
     [\<lparr>Resource = [(''host.name'', ValueStr ''web-1'')],
       ScopeLogs = [\<lparr>LogRecords = [sampleRecord 1000000 ''a'']\<rparr>,
                    \<lparr>LogRecords = [sampleRecord 2000000 ''b'']\<rparr>]\<rparr>,
      \<lparr>Resource = [],
       ScopeLogs = [\<lparr>LogRecords = [sampleRecord 3000000 ''c'']\<rparr>]\<rparr>]"

section \<open>Properties of the conversion\<close>

subsection \<open>The meta mapping of a line\<close>

lemma Range_update:
  "Range m (\<lambda>k v a. a(k \<mapsto> g v)) a0 k' =
     (case map_of (rev m) k' of Some v \<Rightarrow> Some (g v) | None \<Rightarrow> a0 k')"
proof (induction m arbitrary: a0)
  case Nil
  show ?case by simp
next
  case (Cons p m)
  obtain k v where p: "p = (k, v)" by (cases p)
  have "Range (p # m) (\<lambda>k v a. a(k \<mapsto> g v)) a0 k' =
        (case map_of (rev m) k' of Some v \<Rightarrow> Some (g v) | None \<Rightarrow> (a0(k \<mapsto> g v)) k')"
    unfolding p Range.simps by (rule Cons.IH)
  also have "\<dots> = (case map_of (rev (p # m)) k' of Some v \<Rightarrow> Some (g v) | None \<Rightarrow> a0 k')"
    unfolding p by (simp add: map_add_def split: option.splits)
  finally show ?case .
qed

text \<open>
  The attributes of the record are written last, so the last pair with a key decides its
  entry; a key no attribute has keeps the entry derived from the resource and the
  identifiers.
\<close>

lemma Meta_convertRecord:
  "Meta (convertRecord rt now host log) k =
     (case map_of (rev (recAttributes log)) k of
        Some v \<Rightarrow> Some (truncateString (Str v) (maxMetaDataSize rt))
      | None \<Rightarrow> derivedMeta host log k)"
proof -
  have "Meta (convertRecord rt now host log) k =
     Range (recAttributes log) (\<lambda>k v a. a(k \<mapsto> truncateString (Str v) (maxMetaDataSize rt)))
       (let attrs = Map.empty;
          attrs = (case host of
                     Some h \<Rightarrow> attrs(''hostname'' \<mapsto> AsString h)
                   | None \<Rightarrow> attrs);
          attrs = (if \<not> IsEmpty (recTraceID log)
                   then attrs(''trace.id'' \<mapsto> EncodeToString (recTraceID log)) else attrs)
        in (if \<not> IsEmpty (recSpanID log)
                   then attrs(''span.id'' \<mapsto> EncodeToString (recSpanID log)) else attrs)) k"
    by (simp only: convertRecord_def Let_def mezmoLogLine.select_convs)
  also have "\<dots> = (case map_of (rev (recAttributes log)) k of
        Some v \<Rightarrow> Some (truncateString (Str v) (maxMetaDataSize rt))
      | None \<Rightarrow> derivedMeta host log k)"
    unfolding Range_update
    by (cases host) (simp_all add: derivedMeta_def Let_def split: option.splits)
  finally show ?thesis .
qed

lemma hi_nibble: "unat (drop_bit 4 (b :: 8 word)) < 16"
proof -
  have "unat b < 256" using unsigned_less [of b] by simp
  then have "unat b div 16 < 16" by simp
  then show ?thesis by (simp add: unat_drop_bit_eq drop_bit_eq_div unat_div)
qed

lemma lo_nibble: "unat ((b :: 8 word) AND 0x0f) < 16"
proof -
  have "unat (b AND 15) \<le> unat (15 :: 8 word)"
    by (rule word_and_le1 [THEN word_le_nat_alt [THEN iffD1]])
  then show ?thesis by simp
qed

lemma hex_digits:
  "set (EncodeToString bs) \<subseteq> set hextable \<and> length (EncodeToString bs) = 2 * length bs"
proof (induction bs)
  case Nil show ?case by simp
next
  case (Cons b bs)
  have "length hextable = 16" by (simp add: hextable_def)
  then have "hextable ! unat (drop_bit 4 b) \<in> set hextable"
    and "hextable ! unat (b AND 0x0f) \<in> set hextable"
    using hi_nibble [of b] lo_nibble [of b] by (simp_all only: nth_mem)
  with Cons show ?case by (simp del: set_conv_nth)
qed

subsection \<open>Evaluation on concrete inputs\<close>

text \<open>
  Rewrite rules that let the simplifier run the definitions on numerals, and the
  definitions to unfold for the sample exporter, the conversion, the sample encoder and
  the sender.
\<close>

lemma FormatNat_numeral:
  "FormatNat (numeral k) =
     (if (numeral k :: nat) < 10 then [''0123456789'' ! numeral k]
      else FormatNat (numeral k div 10) @ [''0123456789'' ! (numeral k mod 10)])"
  by (rule FormatNat.simps)

lemma FormatNat_0: "FormatNat 0 = ''0''"
  by (simp add: FormatNat.simps)

lemma FormatNat_1: "FormatNat (Suc 0) = ''1''"
  by (simp add: FormatNat.simps)

lemmas FormatNat_eval = FormatNat_numeral FormatNat_0 FormatNat_1

lemma IsEmpty_replicate: "IsEmpty (replicate n 0)"
  by (simp add: IsEmpty_def list_all_iff)

lemmas sample_defs =
  sampleBatch_def sampleRecord_def sampleRuntime_def sampleExporter_def emptyWorld_def
  okResponse_def

lemmas convert_defs =
  convertRecord_def Let_def Get_def IsEmpty_replicate UnixMilli_def truncateString_def

lemmas marshal_defs =
  plainMarshal_def plainMeta_def quoted_def FormatInt_def FormatNat_eval

lemmas send_defs =
  logDataToMezmo_def sendLinesToMezmo_def requestBody_def newRequest_def handleResponse_def
  docOpen_def docClose_def

subsection \<open>Level and timestamp\<close>

lemma sint_64_cases:
  "sint (ts :: 64 word) = (if uint ts < 2 ^ 63 then uint ts else uint ts - 2 ^ 64)"
proof -
  have s: "sint ts = signed_take_bit 63 (uint ts)"
    by (simp add: sint_uint)
  have lt: "uint ts < 2 ^ 64"
    using uint_lt2p [of ts] by simp
  have ge: "0 \<le> uint ts"
    by simp
  show ?thesis
  proof (cases "uint ts < 2 ^ 63")
    case True
    have "- (2 ^ 63) \<le> (0 :: int)"
      by simp
    then have "- (2 ^ 63) \<le> uint ts"
      using ge by (rule order_trans)
    then have "signed_take_bit 63 (uint ts) = uint ts"
      using True by (rule signed_take_bit_int_eq_self)
    with True s show ?thesis by simp
  next
    case False
    then have "uint ts div 2 ^ 63 = 1"
      using lt by simp
    then have "bit (uint ts) 63"
      by (simp add: bit_iff_odd)
    moreover have "take_bit 64 (uint ts) = uint ts"
      using lt ge by (simp add: take_bit_int_eq_self)
    ultimately have "signed_take_bit 63 (uint ts) = uint ts - 2 ^ 64"
      by (simp add: signed_take_bit_eq_take_bit_minus)
    with False s show ?thesis by simp
  qed
qed

lemma UnixMilli_zero: "(UnixMilli ts = 0) = (unat ts < 1000000)"
proof -
  have u: "(unat ts < 1000000) = (uint ts < 1000000)"
  proof -
    have "(nat (uint ts) < 1000000) = (uint ts < int 1000000)"
      by (rule nat_less_iff) simp
    then show ?thesis
      by (simp only: unat_eq_nat_uint of_nat_numeral)
  qed
  show ?thesis
  proof (cases "uint ts < 2 ^ 63")
    case True
    then have "sint ts = uint ts"
      by (simp add: sint_64_cases)
    moreover have "(uint ts div 1000000 = 0) = (uint ts < 1000000)"
      by (auto simp: zdiv_eq_0_iff)
    ultimately show ?thesis
      by (simp only: UnixMilli_def u)
  next
    case False
    then have "sint ts < 0"
      using uint_lt2p [of ts] by (simp add: sint_64_cases)
    then have "sint ts div 1000000 < 0"
      by (simp add: neg_imp_zdiv_neg_iff)
    moreover have "\<not> uint ts < 1000000"
      using False by simp
    ultimately show ?thesis
      by (simp only: UnixMilli_def u) simp
  qed
qed

text \<open>
  Claim C7. The level of a line is \<open>info\<close> when the severity text, truncated to
  \<open>maxLogLevelLen\<close>, is empty, and the truncated severity text otherwise. The timestamp
  of a line is the clock reading when the timestamp of the record, converted to
  milliseconds, is zero, and the timestamp of the record in milliseconds otherwise. The
  converted timestamp is zero exactly when the record's timestamp is less than a million
  nanoseconds.
\<close>

theorem level_and_timestamp_defaults:
  "Level (convertRecord rt now host log) =
     (if truncateString (recSeverityText log) (maxLogLevelLen rt) = [] then ''info''
      else truncateString (recSeverityText log) (maxLogLevelLen rt))
   \<and> Timestamp (convertRecord rt now host log) =
     (if UnixMilli (recTimestamp log) = 0 then now else UnixMilli (recTimestamp log))
   \<and> (UnixMilli (recTimestamp log) = 0) = (unat (recTimestamp log) < 1000000)"
  by (simp add: convertRecord_def Let_def UnixMilli_zero)

theorem level_and_timestamp_defaults_witness:
  "Level (convertRecord (sampleRuntime 80) 1700000000000 None (sampleRecord 999999 ''a'')) = ''info''
   \<and> Timestamp (convertRecord (sampleRuntime 80) 1700000000000 None (sampleRecord 999999 ''a''))
       = 1700000000000
   \<and> Level (convertRecord (sampleRuntime 80) 1700000000000 None
        ((sampleRecord 5000000 ''a'')\<lparr>recSeverityText := ''warn''\<rparr>)) = ''warn''
   \<and> Timestamp (convertRecord (sampleRuntime 80) 1700000000000 None
        ((sampleRecord 5000000 ''a'')\<lparr>recSeverityText := ''warn''\<rparr>)) = 5"
  using level_and_timestamp_defaults [of "sampleRuntime 80" 1700000000000 None "sampleRecord 999999 ''a''"]
    level_and_timestamp_defaults [of "sampleRuntime 80" 1700000000000 None
      "(sampleRecord 5000000 ''a'')\<lparr>recSeverityText := ''warn''\<rparr>"]
  by (simp add: sample_defs UnixMilli_def truncateString_def)

subsection \<open>Values that are not strings\<close>

text \<open>
  Claim C10. An attribute whose value (the last one under its key) is not a string gives
  the empty string as its meta value, and a body that is not a string gives the empty
  line; the \<open>host.name\<close> of the resource, of whatever type, is stored under \<open>hostname\<close>
  as its string representation \<open>AsString\<close> (when no attribute of the record is named
  \<open>hostname\<close>).
\<close>

theorem non_string_values:
  "(map_of (rev (recAttributes log)) k = Some v \<and> \<not> isStr v
      \<longrightarrow> Meta (convertRecord rt now (Get res ''host.name'') log) k = Some [])
   \<and> (\<not> isStr (recBody log) \<longrightarrow> Line (convertRecord rt now (Get res ''host.name'') log) = [])
   \<and> (Get res ''host.name'' = Some h \<and> map_of (rev (recAttributes log)) ''hostname'' = None
      \<longrightarrow> Meta (convertRecord rt now (Get res ''host.name'') log) ''hostname'' = Some (AsString h))"
proof -
  have str: "Str x = []" if "\<not> isStr x" for x
    using that by (cases x) (simp_all add: isStr_def)
  have "Line (convertRecord rt now (Get res ''host.name'') log)
          = truncateString (Str (recBody log)) (maxMessageSize rt)"
    by (simp add: convertRecord_def Let_def)
  then show ?thesis
    by (auto simp: Meta_convertRecord derivedMeta_def str truncateString_def)
qed

theorem non_string_values_witness:
  "Meta (convertRecord (sampleRuntime 80) 0 (Get [(''host.name'', ValueInt 42)] ''host.name'')
          ((sampleRecord 0 ''a'')\<lparr>recAttributes := [(''attempt'', ValueInt 3)]\<rparr>)) ''attempt'' = Some []
   \<and> Line (convertRecord (sampleRuntime 80) 0 (Get [(''host.name'', ValueInt 42)] ''host.name'')
          ((sampleRecord 0 ''a'')\<lparr>recBody := ValueBool True\<rparr>)) = []
   \<and> Meta (convertRecord (sampleRuntime 80) 0 (Get [(''host.name'', ValueInt 42)] ''host.name'')
          ((sampleRecord 0 ''a'')\<lparr>recAttributes := [(''attempt'', ValueInt 3)]\<rparr>)) ''hostname'' = Some ''42''"
proof -
  let ?res = "[(''host.name'', ValueInt 42)]"
  let ?log = "(sampleRecord 0 ''a'')\<lparr>recAttributes := [(''attempt'', ValueInt 3)]\<rparr>"
  let ?log' = "(sampleRecord 0 ''a'')\<lparr>recBody := ValueBool True\<rparr>"
  have a: "map_of (rev (recAttributes ?log)) ''attempt'' = Some (ValueInt 3) \<and> \<not> isStr (ValueInt 3)"
    by (simp add: sample_defs isStr_def)
  have b: "\<not> isStr (recBody ?log')"
    by (simp add: sample_defs isStr_def)
  have c: "Get ?res ''host.name'' = Some (ValueInt 42)
           \<and> map_of (rev (recAttributes ?log)) ''hostname'' = None"
    by (simp add: sample_defs Get_def)
  have d: "AsString (ValueInt 42) = ''42''"
    by (simp add: FormatInt_def FormatNat_eval)
  show ?thesis
    using non_string_values [of ?log "''attempt''" "ValueInt 3" "sampleRuntime 80" 0 ?res "ValueInt 42"]
      non_string_values [of ?log' k v "sampleRuntime 80" 0 ?res h for k v h]
      a b c d
    by simp
qed

subsection \<open>The keys of the meta mapping\<close>

text \<open>
  A record attribute named \<open>hostname\<close> or \<open>trace.id\<close> puts that key into the meta
  mapping of a line whose resource has no \<open>host.name\<close> and whose trace identifier is
  empty; the value under \<open>trace.id\<close> is then the attribute's string, hexadecimal or not.
\<close>

theorem meta_keys_counterexample:
  "Get (Resource \<lparr>Resource = [], ScopeLogs = [\<lparr>LogRecords =
       [(sampleRecord 0 ''a'')\<lparr>recAttributes :=
          [(''hostname'', ValueStr ''db-1''), (''trace.id'', ValueStr ''none'')]\<rparr>]\<rparr>]\<rparr>)
     ''host.name'' = None
   \<and> IsEmpty (recTraceID ((sampleRecord 0 ''a'')\<lparr>recAttributes :=
          [(''hostname'', ValueStr ''db-1''), (''trace.id'', ValueStr ''none'')]\<rparr>))
   \<and> map (\<lambda>l. (Meta l ''hostname'', Meta l ''trace.id''))
       (convertResources (sampleRuntime 80)
          [\<lparr>Resource = [], ScopeLogs = [\<lparr>LogRecords =
             [(sampleRecord 0 ''a'')\<lparr>recAttributes :=
                [(''hostname'', ValueStr ''db-1''), (''trace.id'', ValueStr ''none'')]\<rparr>]\<rparr>]\<rparr>] [])
     = [(Some ''db-1'', Some ''none'')]"
  by (simp add: sample_defs convert_defs)

text \<open>
  Claim C6, amended. The entry of the meta mapping under a key \<open>k\<close>: when the record has
  an attribute named \<open>k\<close>, the truncated string of the last such attribute, whatever \<open>k\<close>
  is; otherwise, under \<open>hostname\<close> the string representation of the \<open>host.name\<close> of the
  resource exactly when the resource has one, under \<open>trace.id\<close> and \<open>span.id\<close> the
  hexadecimal encoding of the identifier exactly when it is not empty, and nothing under
  any other key. The encodings use the digits \<open>0\<close> to \<open>9\<close> and \<open>a\<close> to \<open>f\<close> only.
\<close>

theorem meta_entries:
  "Meta (convertRecord rt now (Get res ''host.name'') log) k =
     (case map_of (rev (recAttributes log)) k of
        Some v \<Rightarrow> Some (truncateString (Str v) (maxMetaDataSize rt))
      | None \<Rightarrow>
          if k = ''hostname'' then map_option AsString (Get res ''host.name'')
          else if k = ''trace.id'' then
            (if IsEmpty (recTraceID log) then None else Some (EncodeToString (recTraceID log)))
          else if k = ''span.id'' then
            (if IsEmpty (recSpanID log) then None else Some (EncodeToString (recSpanID log)))
          else None)
   \<and> set (EncodeToString (recTraceID log)) \<subseteq> set ''0123456789abcdef''
   \<and> set (EncodeToString (recSpanID log)) \<subseteq> set ''0123456789abcdef''"
proof -
  have "set (EncodeToString bs) \<subseteq> set ''0123456789abcdef''" for bs
    using hex_digits [of bs] by (simp only: hextable_def)
  then show ?thesis
    by (simp add: Meta_convertRecord derivedMeta_def split: option.splits)
qed

theorem meta_entries_witness:
  "Meta (convertRecord (sampleRuntime 80) 0 (Get [(''host.name'', ValueStr ''web-1'')] ''host.name'')
      ((sampleRecord 0 ''a'')
         \<lparr>recTraceID := [0x5b, 0x8e, 0xff, 0xf7, 0x98, 0x03, 0x81, 0x03,
                         0xd2, 0x69, 0xb6, 0x33, 0x81, 0x3f, 0xc6, 0x0c],
          recAttributes := [(''span.id'', ValueStr ''mine'')]\<rparr>)) ''hostname'' = Some ''web-1''
   \<and> Meta (convertRecord (sampleRuntime 80) 0 (Get [(''host.name'', ValueStr ''web-1'')] ''host.name'')
      ((sampleRecord 0 ''a'')
         \<lparr>recTraceID := [0x5b, 0x8e, 0xff, 0xf7, 0x98, 0x03, 0x81, 0x03,
                         0xd2, 0x69, 0xb6, 0x33, 0x81, 0x3f, 0xc6, 0x0c],
          recAttributes := [(''span.id'', ValueStr ''mine'')]\<rparr>)) ''trace.id''
       = Some ''5b8efff798038103d269b633813fc60c''
   \<and> Meta (convertRecord (sampleRuntime 80) 0 (Get [(''host.name'', ValueStr ''web-1'')] ''host.name'')
      ((sampleRecord 0 ''a'')
         \<lparr>recTraceID := [0x5b, 0x8e, 0xff, 0xf7, 0x98, 0x03, 0x81, 0x03,
                         0xd2, 0x69, 0xb6, 0x33, 0x81, 0x3f, 0xc6, 0x0c],
          recAttributes := [(''span.id'', ValueStr ''mine'')]\<rparr>)) ''span.id'' = Some ''mine''"
proof -
  let ?res = "[(''host.name'', ValueStr ''web-1'')]"
  let ?log = "(sampleRecord 0 ''a'')
         \<lparr>recTraceID := [0x5b, 0x8e, 0xff, 0xf7, 0x98, 0x03, 0x81, 0x03,
                         0xd2, 0x69, 0xb6, 0x33, 0x81, 0x3f, 0xc6, 0x0c],
          recAttributes := [(''span.id'', ValueStr ''mine'')]\<rparr>"
  have m: "\<And>k. Meta (convertRecord (sampleRuntime 80) 0 (Get ?res ''host.name'') ?log) k =
     (case map_of (rev (recAttributes ?log)) k of
        Some v \<Rightarrow> Some (truncateString (Str v) (maxMetaDataSize (sampleRuntime 80)))
      | None \<Rightarrow>
          if k = ''hostname'' then map_option AsString (Get ?res ''host.name'')
          else if k = ''trace.id'' then
            (if IsEmpty (recTraceID ?log) then None else Some (EncodeToString (recTraceID ?log)))
          else if k = ''span.id'' then
            (if IsEmpty (recSpanID ?log) then None else Some (EncodeToString (recSpanID ?log)))
          else None)"
    using meta_entries [of "sampleRuntime 80" 0 ?res ?log] by blast
  show ?thesis
    unfolding m
    by (simp add: sample_defs Get_def IsEmpty_def truncateString_def hextable_def)
qed

subsection \<open>Truncation of the meta values\<close>

text \<open>
  Claim C5 on a concrete batch: the \<open>host.name\<close> of the resource is stored under
  \<open>hostname\<close> in full, past \<open>maxMetaDataSize\<close>, while the attribute of the record is
  cut to \<open>maxMetaDataSize\<close> bytes. With a limit of 8 bytes the host name keeps its 22
  bytes; with a limit of 32768 bytes a host name of 40000 bytes keeps them all.
\<close>

theorem hostname_not_truncated:
  "map (\<lambda>l. (Meta l ''hostname'', Meta l ''path''))
       (convertResources ((sampleRuntime 80)\<lparr>maxMetaDataSize := 8\<rparr>)
          [\<lparr>Resource = [(''host.name'', ValueStr ''ip-10-0-12-34.internal'')],
            ScopeLogs = [\<lparr>LogRecords =
              [(sampleRecord 0 ''a'')\<lparr>recAttributes :=
                 [(''path'', ValueStr ''/var/log/app.log'')]\<rparr>]\<rparr>]\<rparr>] [])
     = [(Some ''ip-10-0-12-34.internal'', Some ''/var/log'')]
   \<and> maxMetaDataSize (sampleRuntime 80) = 32768
   \<and> map (\<lambda>l. (map_option length (Meta l ''hostname''), map_option length (Meta l ''path'')))
       (convertResources (sampleRuntime 80)
          [\<lparr>Resource = [(''host.name'', ValueStr (replicate 40000 CHR ''h''))],
            ScopeLogs = [\<lparr>LogRecords =
              [(sampleRecord 0 ''a'')\<lparr>recAttributes :=
                 [(''path'', ValueStr (replicate 40000 CHR ''p''))]\<rparr>]\<rparr>]\<rparr>] [])
     = [(Some 40000, Some 32768)]"
  by (simp add: sample_defs convert_defs)

section \<open>Properties of the sender\<close>

subsection \<open>One call of sendLinesToMezmo\<close>

lemma sendLinesToMezmo_response:
  assumes "requestBody rt m b = Inr r"
    and "client m (requests w) (newRequest m b r) = Inr res"
  shows "sendLinesToMezmo rt m b w =
           (map_option ErrClose (respClose res),
            w\<lparr>requests := requests w @ [newRequest m b r],
              logs := logs w @
                (if StatusCode res \<ge> 400 then
                   LogError (''got http status ('' @ urlPath rt (IngestURL (config m)) @ ''): ''
                             @ Status res)
                   # (if logDebug m then [LogDebug ''http response'' (respBody res)] else [])
                 else []),
              closed := closed w + 1\<rparr>)"
  using assms by (simp add: sendLinesToMezmo_def handleResponse_def Let_def)

lemma sendLinesToMezmo_no_body:
  "requestBody rt m b = Inl e \<Longrightarrow> sendLinesToMezmo rt m b w = (Some e, w)"
  by (simp add: sendLinesToMezmo_def)

lemma sendLinesToMezmo_transport:
  "requestBody rt m b = Inr r \<Longrightarrow> client m (requests w) (newRequest m b r) = Inl err \<Longrightarrow>
   sendLinesToMezmo rt m b w = (Some (ErrPost err), w\<lparr>requests := requests w @ [newRequest m b r]\<rparr>)"
  by (simp add: sendLinesToMezmo_def Let_def)

lemma requests_sendLinesToMezmo:
  "requestBody rt m b = Inr r \<Longrightarrow>
   requests (snd (sendLinesToMezmo rt m b w)) = requests w @ [newRequest m b r]"
  by (cases "client m (requests w) (newRequest m b r)")
     (simp_all add: sendLinesToMezmo_def handleResponse_def Let_def)

lemma requests_send:
  "requests (snd (sendLinesToMezmo rt m b w)) =
     requests w @ (case requestBody rt m b of Inl e \<Rightarrow> [] | Inr r \<Rightarrow> [newRequest m b r])"
  by (cases "requestBody rt m b")
     (simp_all add: sendLinesToMezmo_no_body requests_sendLinesToMezmo)

lemma send_ok_body:
  "sendLinesToMezmo rt m b w = (None, w') \<Longrightarrow> \<exists>r. requestBody rt m b = Inr r"
  by (cases "requestBody rt m b") (simp_all add: sendLinesToMezmo_no_body)

lemma send_ok_requests:
  assumes "sendLinesToMezmo rt m b w = (None, w')"
  shows "\<exists>req. requests w' = requests w @ [req] \<and> reqDocument req = b \<and> madeFrom rt m req"
proof -
  obtain r where r: "requestBody rt m b = Inr r"
    using send_ok_body [OF assms] by blast
  have "requests w' = requests w @ [newRequest m b r]"
    using requests_sendLinesToMezmo [OF r, of w] assms by simp
  then show ?thesis using r by (simp add: newRequest_def madeFrom_def)
qed

lemma send_requests_cases:
  "\<exists>rs. requests (snd (sendLinesToMezmo rt m b w)) = requests w @ rs
        \<and> (\<forall>r \<in> set rs. reqDocument r = b \<and> madeFrom rt m r)"
  by (cases "requestBody rt m b") (simp_all add: requests_send newRequest_def madeFrom_def)

section \<open>Properties of the assembly\<close>

subsection \<open>The lines of a batch\<close>

lemma normalizeFrom_append:
  "normalizeFrom rt n (xs @ ys) = normalizeFrom rt n xs @ normalizeFrom rt (n + length xs) ys"
  by (induction xs arbitrary: n) auto

lemma convertRecords_normalizeFrom:
  "convertRecords rt host recs acc = acc @ normalizeFrom rt (length acc) (map (Pair host) recs)"
  by (induction recs arbitrary: acc) simp_all

lemma length_normalizeFrom: "length (normalizeFrom rt n xs) = length xs"
  by (induction xs arbitrary: n) auto

lemma convertScopes_normalizeFrom:
  "convertScopes rt host sls acc =
     acc @ normalizeFrom rt (length acc) (concat (map (\<lambda>sl. map (Pair host) (LogRecords sl)) sls))"
  by (induction sls arbitrary: acc)
     (simp_all add: convertRecords_normalizeFrom normalizeFrom_append length_normalizeFrom)

lemma convertResources_normalizeFrom:
  "convertResources rt ld acc = acc @ normalizeFrom rt (length acc) (recordsOf ld)"
  by (induction ld arbitrary: acc)
     (simp_all add: recordsOf_def convertScopes_normalizeFrom normalizeFrom_append
        length_normalizeFrom)

lemma convertResources_normalized: "convertResources rt ld [] = normalized rt ld"
  by (simp add: convertResources_normalizeFrom normalized_def)

subsection \<open>The loop over the lines\<close>

lemma commaSep_snoc:
  "commaSep (xs @ [y]) = (if xs = [] then y else commaSep xs @ '','' @ y)"
  by (induction xs rule: commaSep.induct) simp_all

lemma sendBatches_size:
  assumes "\<forall>line \<in> set lines. \<forall>bs. jsonMarshal rt line = Inr bs
              \<longrightarrow> int (length bs) + 13 < maxBodySize rt"
    and "int (length b) + 3 \<le> maxBodySize rt"
  shows "\<exists>rs. requests (snd (sendBatches rt m i lines b w)) = requests w @ rs
           \<and> (\<forall>r \<in> set rs. (trailingComma (reqDocument r) \<or> int (length (reqDocument r)) < maxBodySize rt)
                \<and> madeFrom rt m r)
           \<and> (\<forall>b'. fst (sendBatches rt m i lines b w) = Inr b'
                 \<longrightarrow> int (length b') + 3 \<le> maxBodySize rt)"
  using assms
proof (induction lines arbitrary: i b w)
  case Nil
  then show ?case by simp
next
  case (Cons line lines)
  let ?b1 = "if i > 0 then b @ '','' else b"
  have b1: "trailingComma (?b1 @ docClose) \<or> int (length (?b1 @ docClose)) < maxBodySize rt"
    using Cons.prems(2) by (simp add: trailingComma_def docClose_def)
  show ?case
  proof (cases "jsonMarshal rt line")
    case (Inl e)
    then show ?thesis by simp
  next
    case (Inr lineBytes)
    then have fit: "int (length lineBytes) + 13 < maxBodySize rt"
      using Cons.prems(1) by simp
    have rest: "\<forall>line \<in> set lines. \<forall>bs. jsonMarshal rt line = Inr bs
              \<longrightarrow> int (length bs) + 13 < maxBodySize rt"
      using Cons.prems(1) by simp
    show ?thesis
    proof (cases "int (length ?b1) + int (length lineBytes) \<ge> maxBodySize rt - 2")
      case flush: True
      obtain res w1 where s: "sendLinesToMezmo rt m (?b1 @ docClose) w = (res, w1)"
        by (cases "sendLinesToMezmo rt m (?b1 @ docClose) w")
      obtain rs1 where rs1: "requests w1 = requests w @ rs1"
        "\<forall>r \<in> set rs1. reqDocument r = ?b1 @ docClose \<and> madeFrom rt m r"
        using send_requests_cases [of rt m "?b1 @ docClose" w] s by auto
      have small: "\<forall>r \<in> set rs1. (trailingComma (reqDocument r) \<or> int (length (reqDocument r)) < maxBodySize rt)
                \<and> madeFrom rt m r"
        using rs1(2) b1 by auto
      show ?thesis
      proof (cases res)
        case (Some e)
        then show ?thesis
          using Inr flush s rs1(1) small by (simp add: Let_def)
      next
        case None
        have "int (length (docOpen @ lineBytes)) + 3 \<le> maxBodySize rt"
          using fit by (simp add: docOpen_def)
        from Cons.IH [OF rest this, of "Suc i" w1]
        obtain rs2 where rs2:
          "requests (snd (sendBatches rt m (Suc i) lines (docOpen @ lineBytes) w1)) = requests w1 @ rs2"
          "\<forall>r \<in> set rs2. (trailingComma (reqDocument r) \<or> int (length (reqDocument r)) < maxBodySize rt)
                \<and> madeFrom rt m r"
          "\<forall>b'. fst (sendBatches rt m (Suc i) lines (docOpen @ lineBytes) w1) = Inr b'
                 \<longrightarrow> int (length b') + 3 \<le> maxBodySize rt"
          by blast
        have eq: "sendBatches rt m i (line # lines) b w
                    = sendBatches rt m (Suc i) lines (docOpen @ lineBytes) w1"
          using Inr flush s None by (simp add: Let_def)
        show ?thesis
          unfolding eq using rs1(1) small rs2
          by (intro exI [of _ "rs1 @ rs2"]) auto
      qed
    next
      case keep: False
      have "int (length (?b1 @ lineBytes)) + 3 \<le> maxBodySize rt"
        using keep by simp
      from Cons.IH [OF rest this, of "Suc i" w]
      have "\<exists>rs. requests (snd (sendBatches rt m (Suc i) lines (?b1 @ lineBytes) w)) = requests w @ rs
           \<and> (\<forall>r \<in> set rs. (trailingComma (reqDocument r) \<or> int (length (reqDocument r)) < maxBodySize rt)
                \<and> madeFrom rt m r)
           \<and> (\<forall>b'. fst (sendBatches rt m (Suc i) lines (?b1 @ lineBytes) w) = Inr b'
                 \<longrightarrow> int (length b') + 3 \<le> maxBodySize rt)" .
      moreover have "sendBatches rt m i (line # lines) b w
                    = sendBatches rt m (Suc i) lines (?b1 @ lineBytes) w"
        using Inr keep by (simp add: Let_def)
      ultimately show ?thesis by simp
    qed
  qed
qed

lemma sendBatches_documents:
  assumes "sendBatches rt m i lines b w = (Inr b', w')"
    and "b = docOpen @ commaSep (map (encoded rt) cur)"
    and "(i = 0) = (cur = [])"
  shows "\<exists>chunks final rs.
           concat chunks @ final = cur @ lines
         \<and> requests w' = requests w @ rs
         \<and> map reqDocument rs = map (\<lambda>c. flushedDocument (map (encoded rt) c)) chunks
         \<and> b' = docOpen @ commaSep (map (encoded rt) final)
         \<and> (\<forall>l \<in> set lines. jsonMarshal rt l = Inr (encoded rt l))
         \<and> (\<forall>r \<in> set rs. madeFrom rt m r)"
  using assms
proof (induction lines arbitrary: i b w cur)
  case Nil
  then show ?case
    by (intro exI [of _ "[]"] exI [of _ cur]) simp
next
  case (Cons line lines)
  let ?b1 = "if i > 0 then b @ '','' else b"
  obtain lineBytes where enc: "jsonMarshal rt line = Inr lineBytes"
    using Cons.prems(1) by (cases "jsonMarshal rt line") simp_all
  then have encoded: "encoded rt line = lineBytes"
    by (simp add: encoded_def)
  show ?case
  proof (cases "int (length ?b1) + int (length lineBytes) \<ge> maxBodySize rt - 2")
    case flush: True
    obtain res w1 where s: "sendLinesToMezmo rt m (?b1 @ docClose) w = (res, w1)"
      by (cases "sendLinesToMezmo rt m (?b1 @ docClose) w")
    have res: "res = None"
      using Cons.prems(1) enc flush s by (cases res) (simp_all add: Let_def)
    have next_call: "sendBatches rt m (Suc i) lines (docOpen @ lineBytes) w1 = (Inr b', w')"
      using Cons.prems(1) enc flush s res by (simp add: Let_def)
    obtain req where req: "requests w1 = requests w @ [req]" "reqDocument req = ?b1 @ docClose"
      "madeFrom rt m req"
      using send_ok_requests [of rt m "?b1 @ docClose" w w1] s res by auto
    have doc: "?b1 @ docClose = flushedDocument (map (encoded rt) cur)"
      using Cons.prems(2,3) by (auto simp: flushedDocument_def)
    have "docOpen @ lineBytes = docOpen @ commaSep (map (encoded rt) [line])"
      by (simp add: encoded)
    from Cons.IH [OF next_call this]
    obtain chunks final rs where ih:
      "concat chunks @ final = [line] @ lines"
      "requests w' = requests w1 @ rs"
      "map reqDocument rs = map (\<lambda>c. flushedDocument (map (encoded rt) c)) chunks"
      "b' = docOpen @ commaSep (map (encoded rt) final)"
      "\<forall>l \<in> set lines. jsonMarshal rt l = Inr (encoded rt l)"
      "\<forall>r \<in> set rs. madeFrom rt m r"
      by auto
    show ?thesis
      using ih req doc enc encoded
      by (intro exI [of _ "cur # chunks"] exI [of _ final] exI [of _ "req # rs"]) simp
  next
    case keep: False
    have next_call: "sendBatches rt m (Suc i) lines (?b1 @ lineBytes) w = (Inr b', w')"
      using Cons.prems(1) enc keep by (simp add: Let_def)
    have "?b1 @ lineBytes = docOpen @ commaSep (map (encoded rt) (cur @ [line]))"
      using Cons.prems(2,3) by (auto simp: commaSep_snoc encoded)
    from Cons.IH [OF next_call this]
    obtain chunks final rs where ih:
      "concat chunks @ final = (cur @ [line]) @ lines"
      "requests w' = requests w @ rs"
      "map reqDocument rs = map (\<lambda>c. flushedDocument (map (encoded rt) c)) chunks"
      "b' = docOpen @ commaSep (map (encoded rt) final)"
      "\<forall>l \<in> set lines. jsonMarshal rt l = Inr (encoded rt l)"
      "\<forall>r \<in> set rs. madeFrom rt m r"
      by auto
    show ?thesis
      using ih enc encoded
      by (intro exI [of _ chunks] exI [of _ final] exI [of _ rs]) simp
  qed
qed

lemma push_documents:
  assumes "logDataToMezmo rt m ld w = (None, w')"
  shows "\<exists>chunks final.
           concat chunks @ final = normalized rt ld
         \<and> map reqDocument (issued w w') =
             map (\<lambda>c. flushedDocument (map (encoded rt) c)) chunks
             @ [document (map (encoded rt) final)]
         \<and> (\<forall>l \<in> set (normalized rt ld). jsonMarshal rt l = Inr (encoded rt l))
         \<and> (\<forall>r \<in> set (issued w w'). madeFrom rt m r)"
proof -
  let ?lines = "normalized rt ld"
  obtain res w1 where loop: "sendBatches rt m 0 ?lines docOpen w = (res, w1)"
    by (cases "sendBatches rt m 0 ?lines docOpen w")
  obtain b where b: "res = Inr b"
    using assms loop by (cases res) (simp_all add: logDataToMezmo_def convertResources_normalized)
  have last_call: "sendLinesToMezmo rt m (b @ docClose) w1 = (None, w')"
    using assms loop b by (simp add: logDataToMezmo_def convertResources_normalized)
  have "docOpen = docOpen @ commaSep (map (encoded rt) [])"
    by simp
  from sendBatches_documents [OF loop [unfolded b] this]
  obtain chunks final rs where inv:
    "concat chunks @ final = ?lines"
    "requests w1 = requests w @ rs"
    "map reqDocument rs = map (\<lambda>c. flushedDocument (map (encoded rt) c)) chunks"
    "b = docOpen @ commaSep (map (encoded rt) final)"
    "\<forall>l \<in> set ?lines. jsonMarshal rt l = Inr (encoded rt l)"
    "\<forall>r \<in> set rs. madeFrom rt m r"
    by auto
  obtain req where req: "requests w' = requests w1 @ [req]" "reqDocument req = b @ docClose"
    "madeFrom rt m req"
    using send_ok_requests [OF last_call] by blast
  have "issued w w' = rs @ [req]"
    using inv(2) req(1) by (simp add: issued_def)
  then show ?thesis
    using inv req(2,3)
    by (intro exI [of _ chunks] exI [of _ final]) (simp add: document_def)
qed

lemma send_answered:
  assumes "\<forall>made req. \<exists>res. client m made req = Inr res \<and> respClose res = None"
    and "\<forall>p. \<exists>r. requestBody rt m p = Inr r"
  shows "\<exists>req. fst (sendLinesToMezmo rt m b w) = None
           \<and> requests (snd (sendLinesToMezmo rt m b w)) = requests w @ [req]
           \<and> closed (snd (sendLinesToMezmo rt m b w)) = closed w + 1"
proof -
  obtain r where r: "requestBody rt m b = Inr r"
    using assms(2) by blast
  obtain res where res: "client m (requests w) (newRequest m b r) = Inr res" "respClose res = None"
    using assms(1) by blast
  show ?thesis
    unfolding sendLinesToMezmo_response [OF r res(1)] using res(2) by simp
qed

lemma sendBatches_answered:
  assumes "\<forall>made req. \<exists>res. client m made req = Inr res \<and> respClose res = None"
    and "\<forall>p. \<exists>r. requestBody rt m p = Inr r"
    and "\<forall>l. \<exists>bs. jsonMarshal rt l = Inr bs"
  shows "\<exists>b' rs. fst (sendBatches rt m i lines b w) = Inr b'
           \<and> requests (snd (sendBatches rt m i lines b w)) = requests w @ rs
           \<and> closed (snd (sendBatches rt m i lines b w)) = closed w + length rs"
proof (induction lines arbitrary: i b w)
  case Nil
  show ?case by simp
next
  case (Cons line lines)
  let ?b1 = "if i > 0 then b @ '','' else b"
  obtain lineBytes where enc: "jsonMarshal rt line = Inr lineBytes"
    using assms(3) by blast
  show ?case
  proof (cases "int (length ?b1) + int (length lineBytes) \<ge> maxBodySize rt - 2")
    case flush: True
    let ?s = "sendLinesToMezmo rt m (?b1 @ docClose) w"
    obtain req where s: "fst ?s = None" "requests (snd ?s) = requests w @ [req]"
      "closed (snd ?s) = closed w + 1"
      using send_answered [OF assms(1,2), of "?b1 @ docClose" w] by blast
    have eq: "sendBatches rt m i (line # lines) b w
                = sendBatches rt m (Suc i) lines (docOpen @ lineBytes) (snd ?s)"
      using enc flush s(1) by (cases ?s) (simp add: Let_def)
    obtain b' rs where
      "fst (sendBatches rt m (Suc i) lines (docOpen @ lineBytes) (snd ?s)) = Inr b'"
      "requests (snd (sendBatches rt m (Suc i) lines (docOpen @ lineBytes) (snd ?s)))
         = requests (snd ?s) @ rs"
      "closed (snd (sendBatches rt m (Suc i) lines (docOpen @ lineBytes) (snd ?s)))
         = closed (snd ?s) + length rs"
      using Cons.IH [of "Suc i" "docOpen @ lineBytes" "snd ?s"] by blast
    then show ?thesis
      unfolding eq using s(2,3)
      by (intro exI [of _ b'] exI [of _ "req # rs"]) simp
  next
    case keep: False
    have eq: "sendBatches rt m i (line # lines) b w
                = sendBatches rt m (Suc i) lines (?b1 @ lineBytes) w"
      using enc keep by (simp add: Let_def)
    show ?thesis
      unfolding eq by (rule Cons.IH)
  qed
qed

lemma push_answered:
  assumes "\<forall>made req. \<exists>res. client m made req = Inr res \<and> respClose res = None"
    and "\<forall>p. \<exists>r. requestBody rt m p = Inr r"
    and "\<forall>l. \<exists>bs. jsonMarshal rt l = Inr bs"
  shows "fst (logDataToMezmo rt m ld w) = None
         \<and> closed (snd (logDataToMezmo rt m ld w))
             = closed w + length (issued w (snd (logDataToMezmo rt m ld w)))"
proof -
  let ?loop = "sendBatches rt m 0 (convertResources rt ld []) docOpen w"
  obtain b rs where loop: "fst ?loop = Inr b" "requests (snd ?loop) = requests w @ rs"
    "closed (snd ?loop) = closed w + length rs"
    using sendBatches_answered [OF assms, of 0 "convertResources rt ld []" docOpen w] by blast
  let ?s = "sendLinesToMezmo rt m (b @ docClose) (snd ?loop)"
  have push: "logDataToMezmo rt m ld w = ?s"
    using loop(1) by (cases ?loop) (simp add: logDataToMezmo_def)
  obtain req where s: "fst ?s = None" "requests (snd ?s) = requests (snd ?loop) @ [req]"
    "closed (snd ?s) = closed (snd ?loop) + 1"
    using send_answered [OF assms(1,2), of "b @ docClose" "snd ?loop"] by blast
  show ?thesis
    unfolding push using s loop(2,3) by (simp add: issued_def)
qed

subsection \<open>Compression\<close>

lemma gzip_round_trip:
  "gzipWrite z p = Inr buf \<Longrightarrow> gzipRead z (buf @ gzipClose z p) = Some p"
  by transfer auto

lemmas gzip_defs =
  gzipWrite.rep_eq gzipClose.rep_eq gzipRead.rep_eq sampleGzip.rep_eq failingGzip.rep_eq

lemma sendBatches_requests:
  "\<exists>rs. requests (snd (sendBatches rt m i lines b w)) = requests w @ rs
        \<and> (\<forall>r \<in> set rs. madeFrom rt m r)"
proof (induction lines arbitrary: i b w)
  case Nil
  show ?case by simp
next
  case (Cons line lines)
  let ?b1 = "if i > 0 then b @ '','' else b"
  show ?case
  proof (cases "jsonMarshal rt line")
    case (Inl e)
    then show ?thesis by simp
  next
    case (Inr lineBytes)
    show ?thesis
    proof (cases "int (length ?b1) + int (length lineBytes) \<ge> maxBodySize rt - 2")
      case flush: True
      obtain res w1 where s: "sendLinesToMezmo rt m (?b1 @ docClose) w = (res, w1)"
        by (cases "sendLinesToMezmo rt m (?b1 @ docClose) w")
      obtain rs1 where rs1: "requests w1 = requests w @ rs1" "\<forall>r \<in> set rs1. madeFrom rt m r"
        using send_requests_cases [of rt m "?b1 @ docClose" w] s by auto
      show ?thesis
      proof (cases res)
        case (Some e)
        then show ?thesis
          using Inr flush s rs1 by (simp add: Let_def)
      next
        case None
        obtain rs2 where rs2:
          "requests (snd (sendBatches rt m (Suc i) lines (docOpen @ lineBytes) w1)) = requests w1 @ rs2"
          "\<forall>r \<in> set rs2. madeFrom rt m r"
          using Cons.IH [of "Suc i" "docOpen @ lineBytes" w1] by blast
        have eq: "sendBatches rt m i (line # lines) b w
                    = sendBatches rt m (Suc i) lines (docOpen @ lineBytes) w1"
          using Inr flush s None by (simp add: Let_def)
        show ?thesis
          unfolding eq using rs1 rs2
          by (intro exI [of _ "rs1 @ rs2"]) auto
      qed
    next
      case keep: False
      have "sendBatches rt m i (line # lines) b w
              = sendBatches rt m (Suc i) lines (?b1 @ lineBytes) w"
        using Inr keep by (simp add: Let_def)
      then show ?thesis
        using Cons.IH [of "Suc i" "?b1 @ lineBytes" w] by simp
    qed
  qed
qed

lemma push_requests:
  "\<forall>r \<in> set (issued w (snd (logDataToMezmo rt m ld w))). madeFrom rt m r"
proof -
  let ?loop = "sendBatches rt m 0 (convertResources rt ld []) docOpen w"
  obtain rs where rs: "requests (snd ?loop) = requests w @ rs" "\<forall>r \<in> set rs. madeFrom rt m r"
    using sendBatches_requests [of rt m 0 "convertResources rt ld []" docOpen w] by blast
  obtain res w1 where loop: "?loop = (res, w1)"
    by (cases ?loop)
  show ?thesis
  proof (cases res)
    case (Inl e)
    then have "logDataToMezmo rt m ld w = (Some e, w1)"
      using loop by (simp add: logDataToMezmo_def)
    then show ?thesis
      using rs loop by (simp add: issued_def)
  next
    case (Inr b)
    then have push: "logDataToMezmo rt m ld w = sendLinesToMezmo rt m (b @ docClose) w1"
      using loop by (simp add: logDataToMezmo_def)
    obtain rs' where rs': "requests (snd (sendLinesToMezmo rt m (b @ docClose) w1)) = requests w1 @ rs'"
      "\<forall>r \<in> set rs'. reqDocument r = b @ docClose \<and> madeFrom rt m r"
      using send_requests_cases [of rt m "b @ docClose" w1] by blast
    have "issued w (snd (logDataToMezmo rt m ld w)) = rs @ rs'"
      using rs(1) rs'(1) loop push by (simp add: issued_def)
    then show ?thesis
      using rs(2) rs'(2) by auto
  qed
qed

lemma madeFrom_compressed:
  assumes "madeFrom rt m r" and "Compression (config m)"
  shows "gzipRead (gzip rt) (reqBody r) = Some (reqDocument r)
         \<and> (''Content-Encoding'', ''gzip'') \<in> set (reqHeader r)"
proof -
  have body: "requestBody rt m (reqDocument r) = Inr (reqBody r)"
    and req: "r = newRequest m (reqDocument r) (reqBody r)"
    using assms(1) by (simp_all add: madeFrom_def)
  obtain buf where buf: "gzipWrite (gzip rt) (reqDocument r) = Inr buf"
    "reqBody r = buf @ gzipClose (gzip rt) (reqDocument r)"
    using body assms(2) by (auto simp: requestBody_def split: sum.splits)
  have "gzipRead (gzip rt) (reqBody r) = Some (reqDocument r)"
    unfolding buf(2) using buf(1) by (rule gzip_round_trip)
  moreover have "(''Content-Encoding'', ''gzip'') \<in> set (reqHeader (newRequest m (reqDocument r) (reqBody r)))"
    using assms(2) by (simp add: newRequest_def)
  ultimately show ?thesis
    using req by simp
qed

text \<open>
  Claim C8. With compression on: when the compressor's \<open>Write\<close> fails (the one
  compression failure there is), the call returns the compression error and makes no
  request; when it succeeds, the call makes one request, whose body is a gzip stream that
  reads back as the body of the request the same call makes with compression off (the
  document itself), and which carries \<open>Content-Encoding: gzip\<close>. So every request of a
  push has a body that reads back as its document, and carries that header.
\<close>

theorem compressed_request:
  "Compression (config m) \<longrightarrow>
     (\<forall>err. gzipWrite (gzip rt) b = Inl err \<longrightarrow>
        sendLinesToMezmo rt m b w = (Some (ErrCompress err), w))
   \<and> (\<forall>buf. gzipWrite (gzip rt) b = Inr buf \<longrightarrow>
        (\<exists>req req'.
           requests (snd (sendLinesToMezmo rt m b w)) = requests w @ [req]
         \<and> requests (snd (sendLinesToMezmo rt (withoutCompression m) b w)) = requests w @ [req']
         \<and> reqBody req' = b
         \<and> gzipRead (gzip rt) (reqBody req) = Some (reqBody req')
         \<and> (''Content-Encoding'', ''gzip'') \<in> set (reqHeader req)))
   \<and> (\<forall>r \<in> set (issued w (snd (logDataToMezmo rt m ld w))).
        gzipRead (gzip rt) (reqBody r) = Some (reqDocument r)
        \<and> (''Content-Encoding'', ''gzip'') \<in> set (reqHeader r))"
proof (intro impI conjI allI ballI)
  fix err
  assume "Compression (config m)" "gzipWrite (gzip rt) b = Inl err"
  then show "sendLinesToMezmo rt m b w = (Some (ErrCompress err), w)"
    by (simp add: sendLinesToMezmo_def requestBody_def)
next
  fix buf
  assume c: "Compression (config m)" and g: "gzipWrite (gzip rt) b = Inr buf"
  let ?r = "buf @ gzipClose (gzip rt) b"
  have 1: "requestBody rt m b = Inr ?r"
    using c g by (simp add: requestBody_def)
  have 2: "requestBody rt (withoutCompression m) b = Inr b"
    by (simp add: requestBody_def withoutCompression_def)
  have 3: "(''Content-Encoding'', ''gzip'') \<in> set (reqHeader (newRequest m b ?r))"
    using c by (simp add: newRequest_def)
  have 4: "reqBody (newRequest m b ?r) = ?r" "reqBody (newRequest (withoutCompression m) b b) = b"
    by (simp_all add: newRequest_def)
  have 5: "gzipRead (gzip rt) ?r = Some b"
    using g by (rule gzip_round_trip)
  show "\<exists>req req'.
           requests (snd (sendLinesToMezmo rt m b w)) = requests w @ [req]
         \<and> requests (snd (sendLinesToMezmo rt (withoutCompression m) b w)) = requests w @ [req']
         \<and> reqBody req' = b
         \<and> gzipRead (gzip rt) (reqBody req) = Some (reqBody req')
         \<and> (''Content-Encoding'', ''gzip'') \<in> set (reqHeader req)"
    using requests_sendLinesToMezmo [OF 1, of w] requests_sendLinesToMezmo [OF 2, of w] 3 4 5
    by (intro exI [of _ "newRequest m b ?r"] exI [of _ "newRequest (withoutCompression m) b b"]) simp
next
  fix r
  assume "Compression (config m)" "r \<in> set (issued w (snd (logDataToMezmo rt m ld w)))"
  then have "gzipRead (gzip rt) (reqBody r) = Some (reqDocument r)
             \<and> (''Content-Encoding'', ''gzip'') \<in> set (reqHeader r)"
    using push_requests [of w rt m ld] by (intro madeFrom_compressed) auto
  then show "gzipRead (gzip rt) (reqBody r) = Some (reqDocument r)"
    and "(''Content-Encoding'', ''gzip'') \<in> set (reqHeader r)"
    by simp_all
qed

theorem compressed_request_witness:
  \<open>map reqBody (requests (snd (sendLinesToMezmo (sampleRuntime 80) (withCompression sampleExporter)
       ''{"lines": []}'' emptyWorld))) = [''GZ{"lines": []}ZG'']
   \<and> gzipRead (gzip (sampleRuntime 80)) ''GZ{"lines": []}ZG'' = Some ''{"lines": []}''
   \<and> map reqBody (requests (snd (sendLinesToMezmo (sampleRuntime 80)
        (withoutCompression (withCompression sampleExporter))
       ''{"lines": []}'' emptyWorld))) = [''{"lines": []}'']
   \<and> map reqHeader (requests (snd (sendLinesToMezmo (sampleRuntime 80) (withCompression sampleExporter)
       ''{"lines": []}'' emptyWorld)))
       = [[(''Accept'', ''application/json''), (''Content-Type'', ''application/json''),
           (''User-Agent'', ''mezmo-otel-exporter/0.1''), (''apikey'', ''0123''),
           (''Content-Encoding'', ''gzip'')]]
   \<and> sendLinesToMezmo ((sampleRuntime 80)\<lparr>gzip := failingGzip\<rparr>)
        (withCompression sampleExporter) ''{"lines": []}'' emptyWorld
       = (Some (ErrCompress ''gzip: invalid header''), emptyWorld)
   \<and> map reqBody (issued emptyWorld (snd (logDataToMezmo (sampleRuntime 80)
        (withCompression sampleExporter) (sampleBatch [sampleRecord 1000000 ''a'']) emptyWorld)))
       = [''GZ{"lines": [{"timestamp":1,"line":"a","app":"","level":"info","meta":{}}]}ZG'']
   \<and> list_all (\<lambda>r. gzipRead (gzip (sampleRuntime 80)) (reqBody r) = Some (reqDocument r))
        (issued emptyWorld (snd (logDataToMezmo (sampleRuntime 80)
          (withCompression sampleExporter) (sampleBatch [sampleRecord 1000000 ''a'']) emptyWorld)))\<close>
proof -
  let ?m = "withCompression sampleExporter"
  let ?b = \<open>''{"lines": []}''\<close>
  let ?rt = "sampleRuntime 80"
  let ?rt' = "(sampleRuntime 80)\<lparr>gzip := failingGzip\<rparr>"
  have c: "Compression (config ?m)"
    by (simp add: withCompression_def)
  have g: "gzipWrite (gzip ?rt) ?b = Inr (''GZ'' @ ?b)"
    and g': "gzipWrite (gzip ?rt') ?b = Inl ''gzip: invalid header''"
    by (simp_all add: sample_defs gzip_defs)
  note t = compressed_request [where m = ?m and b = ?b and w = emptyWorld
      and ld = "sampleBatch [sampleRecord 1000000 ''a'']"]
  let ?push = "logDataToMezmo ?rt ?m (sampleBatch [sampleRecord 1000000 ''a'']) emptyWorld"
  from t [of ?rt] c
  have pushed: "\<forall>r \<in> set (issued emptyWorld (snd ?push)).
        gzipRead (gzip ?rt) (reqBody r) = Some (reqDocument r)"
    by blast
  have bodies: \<open>map reqBody (issued emptyWorld (snd ?push))
       = [''GZ{"lines": [{"timestamp":1,"line":"a","app":"","level":"info","meta":{}}]}ZG'']\<close>
    by (simp add: issued_def withCompression_def sample_defs gzip_defs convert_defs marshal_defs
          send_defs)
  from t [of ?rt] c g
  obtain req req' where r:
    "requests (snd (sendLinesToMezmo ?rt ?m ?b emptyWorld)) = requests emptyWorld @ [req]"
    "requests (snd (sendLinesToMezmo ?rt (withoutCompression ?m) ?b emptyWorld))
       = requests emptyWorld @ [req']"
    "reqBody req' = ?b"
    "gzipRead (gzip ?rt) (reqBody req) = Some (reqBody req')"
    by blast
  have body: "map reqBody (requests (snd (sendLinesToMezmo ?rt ?m ?b emptyWorld)))
                = [''GZ'' @ ?b @ ''ZG'']"
    and header: "map reqHeader (requests (snd (sendLinesToMezmo ?rt ?m ?b emptyWorld)))
       = [[(''Accept'', ''application/json''), (''Content-Type'', ''application/json''),
           (''User-Agent'', ''mezmo-otel-exporter/0.1''), (''apikey'', ''0123''),
           (''Content-Encoding'', ''gzip'')]]"
    by (simp_all add: sample_defs gzip_defs withCompression_def sendLinesToMezmo_def
          requestBody_def newRequest_def handleResponse_def Let_def)
  have "reqBody req = ''GZ'' @ ?b @ ''ZG''"
    using body r(1) by (simp add: emptyWorld_def)
  then have read: "gzipRead (gzip ?rt) (''GZ'' @ ?b @ ''ZG'') = Some ?b"
    using r(3,4) by simp
  have plain: "map reqBody (requests (snd (sendLinesToMezmo ?rt (withoutCompression ?m) ?b emptyWorld)))
                 = [?b]"
    using r(2,3) by (simp add: emptyWorld_def)
  have "sendLinesToMezmo ?rt' ?m ?b emptyWorld
          = (Some (ErrCompress ''gzip: invalid header''), emptyWorld)"
    using t [of ?rt'] c g' by blast
  with body header read plain pushed bodies show ?thesis
    by (simp add: list_all_iff)
qed

subsection \<open>Responses with an error status\<close>

text \<open>
  Claim C4. When the request of a call is answered, the call returns the error of closing
  the response body and nothing else, whatever the status code: it closes the body once,
  and it logs an error entry with the status exactly when the status code is 400 or more,
  followed by a debug entry with the response body exactly when the logger is enabled at
  debug level. So a push whose requests are all answered by responses that close without
  error returns no error (given that no line fails to encode and no document fails to
  compress), and it has closed one response body for every request it made.
\<close>

theorem rejection_is_not_an_error:
  "(requestBody rt m b = Inr r \<and> client m (requests w) (newRequest m b r) = Inr res \<longrightarrow>
      fst (sendLinesToMezmo rt m b w) = map_option ErrClose (respClose res)
      \<and> closed (snd (sendLinesToMezmo rt m b w)) = closed w + 1
      \<and> logs (snd (sendLinesToMezmo rt m b w)) = logs w @
           (if StatusCode res \<ge> 400 then
              LogError (''got http status ('' @ urlPath rt (IngestURL (config m)) @ ''): ''
                        @ Status res)
              # (if logDebug m then [LogDebug ''http response'' (respBody res)] else [])
            else []))
   \<and> ((\<forall>made req. \<exists>res. client m made req = Inr res \<and> respClose res = None)
       \<and> (\<forall>p. \<exists>r. requestBody rt m p = Inr r)
       \<and> (\<forall>l. \<exists>bs. jsonMarshal rt l = Inr bs) \<longrightarrow>
      fst (logDataToMezmo rt m ld w) = None
      \<and> closed (snd (logDataToMezmo rt m ld w))
          = closed w + length (issued w (snd (logDataToMezmo rt m ld w))))"
  using push_answered [of m rt ld w] by (simp add: sendLinesToMezmo_response)

theorem rejection_is_not_an_error_witness:
  \<open>fst (sendLinesToMezmo (sampleRuntime 80) (rejecting sampleExporter) ''{"lines": []}'' emptyWorld) = None
   \<and> closed (snd (sendLinesToMezmo (sampleRuntime 80) (rejecting sampleExporter) ''{"lines": []}'' emptyWorld)) = 1
   \<and> logs (snd (sendLinesToMezmo (sampleRuntime 80) (rejecting sampleExporter) ''{"lines": []}'' emptyWorld))
       = [LogError ''got http status (/otel/ingest/rest): 500 Internal Server Error'']
   \<and> logs (snd (sendLinesToMezmo (sampleRuntime 80) ((rejecting sampleExporter)\<lparr>logDebug := True\<rparr>)
                 ''{"lines": []}'' emptyWorld))
       = [LogError ''got http status (/otel/ingest/rest): 500 Internal Server Error'',
          LogDebug ''http response'' ''overloaded'']
   \<and> fst (logDataToMezmo (sampleRuntime 80) (rejecting sampleExporter)
          (sampleBatch [sampleRecord 1000000 ''a'', sampleRecord 2000000 ''b'']) emptyWorld) = None
   \<and> closed (snd (logDataToMezmo (sampleRuntime 80) (rejecting sampleExporter)
          (sampleBatch [sampleRecord 1000000 ''a'', sampleRecord 2000000 ''b'']) emptyWorld)) = 2\<close>
proof -
  let ?res = "\<lparr>StatusCode = 500, Status = ''500 Internal Server Error'',
               respBody = ''overloaded'', respClose = None\<rparr>"
  let ?rt = "sampleRuntime 80"
  let ?m = "rejecting sampleExporter"
  let ?b = \<open>''{"lines": []}''\<close>
  let ?ld = "sampleBatch [sampleRecord 1000000 ''a'', sampleRecord 2000000 ''b'']"
  have a: "requestBody ?rt ?m ?b = Inr ?b
           \<and> client ?m (requests emptyWorld) (newRequest ?m ?b ?b) = Inr ?res"
    by (simp add: requestBody_def rejecting_def sample_defs)
  have b: "requestBody ?rt (?m\<lparr>logDebug := True\<rparr>) ?b = Inr ?b
           \<and> client (?m\<lparr>logDebug := True\<rparr>) (requests emptyWorld)
                (newRequest (?m\<lparr>logDebug := True\<rparr>) ?b ?b) = Inr ?res"
    by (simp add: requestBody_def rejecting_def sample_defs)
  have c: "(\<forall>made req. \<exists>res. client ?m made req = Inr res \<and> respClose res = None)
       \<and> (\<forall>p. \<exists>r. requestBody ?rt ?m p = Inr r)
       \<and> (\<forall>l. \<exists>bs. jsonMarshal ?rt l = Inr bs)"
    by (simp add: requestBody_def rejecting_def sample_defs plainMarshal_def)
  have d: "length (issued emptyWorld (snd (logDataToMezmo ?rt ?m ?ld emptyWorld))) = 2"
    by (simp add: issued_def rejecting_def sample_defs convert_defs marshal_defs send_defs)
  note t = rejection_is_not_an_error
  from t [of ?rt ?m ?b ?b emptyWorld ?res] a
  have 1: "fst (sendLinesToMezmo ?rt ?m ?b emptyWorld) = map_option ErrClose (respClose ?res)
      \<and> closed (snd (sendLinesToMezmo ?rt ?m ?b emptyWorld)) = closed emptyWorld + 1
      \<and> logs (snd (sendLinesToMezmo ?rt ?m ?b emptyWorld)) = logs emptyWorld @
           (if StatusCode ?res \<ge> 400 then
              LogError (''got http status ('' @ urlPath ?rt (IngestURL (config ?m)) @ ''): ''
                        @ Status ?res)
              # (if logDebug ?m then [LogDebug ''http response'' (respBody ?res)] else [])
            else [])"
    by blast
  from t [of ?rt "?m\<lparr>logDebug := True\<rparr>" ?b ?b emptyWorld ?res] b
  have 2: "logs (snd (sendLinesToMezmo ?rt (?m\<lparr>logDebug := True\<rparr>) ?b emptyWorld)) = logs emptyWorld @
           (if StatusCode ?res \<ge> 400 then
              LogError (''got http status ('' @ urlPath ?rt (IngestURL (config (?m\<lparr>logDebug := True\<rparr>))) @ ''): ''
                        @ Status ?res)
              # (if logDebug (?m\<lparr>logDebug := True\<rparr>) then [LogDebug ''http response'' (respBody ?res)] else [])
            else [])"
    by blast
  from t [where rt = ?rt and m = ?m and ld = ?ld and w = emptyWorld] c
  have 3: "fst (logDataToMezmo ?rt ?m ?ld emptyWorld) = None
      \<and> closed (snd (logDataToMezmo ?rt ?m ?ld emptyWorld))
          = closed emptyWorld + length (issued emptyWorld (snd (logDataToMezmo ?rt ?m ?ld emptyWorld)))"
    by blast
  show ?thesis
    using 1 2 3 unfolding d
    by (simp add: rejecting_def sample_defs)
qed

subsection \<open>The empty batch and the final document\<close>



subsection \<open>The size of the documents\<close>

text \<open>
  A push that breaks the bound: with a limit of 64 bytes, one line whose encoding has 60
  bytes is sent in a document of 73 bytes (after an empty document of 13 bytes). The loop
  has no way to split or drop a line that does not fit.
\<close>

theorem size_bound_counterexample:
  \<open>maxBodySize (sampleRuntime 64) = 64
   \<and> map (\<lambda>l. length (encoded (sampleRuntime 64) l))
       (normalized (sampleRuntime 64) (sampleBatch [sampleRecord 1000000 ''a''])) = [60]
   \<and> map reqBody
       (requests (snd (logDataToMezmo (sampleRuntime 64) sampleExporter
          (sampleBatch [sampleRecord 1000000 ''a'']) emptyWorld)))
     = [''{"lines": []}'',
        ''{"lines": [{"timestamp":1,"line":"a","app":"","level":"info","meta":{}}]}'']
   \<and> map (\<lambda>r. length (reqBody r))
       (requests (snd (logDataToMezmo (sampleRuntime 64) sampleExporter
          (sampleBatch [sampleRecord 1000000 ''a'']) emptyWorld)))
     = [13, 73]\<close>
  by (simp add: sample_defs convert_defs marshal_defs send_defs encoded_def
        convertResources_normalized [symmetric])

text \<open>
  Claim C1, amended. When the limit is more than 13 bytes and the encoding of every line
  of the batch, with 13 bytes of framing, is shorter than the limit, the document of
  every request of the push is strictly shorter than \<open>maxBodySize\<close>, the documents that
  end with a comma before the closing \<open>]}\<close> left aside: nothing is said of their size.
  The document is what the body of the request was made from (the body itself when
  compression is off), and the document of the last request of a push that returns no
  error is strictly shorter than \<open>maxBodySize\<close> whatever its text.
\<close>

theorem body_size_bound:
  "13 < maxBodySize rt
   \<and> (\<forall>line \<in> set (normalized rt ld). \<forall>bs. jsonMarshal rt line = Inr bs
          \<longrightarrow> int (length bs) + 13 < maxBodySize rt)
   \<longrightarrow> (\<forall>r \<in> set (issued w (snd (logDataToMezmo rt m ld w))).
          (\<not> trailingComma (reqDocument r)
             \<longrightarrow> int (length (reqDocument r)) < maxBodySize rt)
          \<and> requestBody rt m (reqDocument r) = Inr (reqBody r))
     \<and> (fst (logDataToMezmo rt m ld w) = None \<longrightarrow>
          int (length (reqDocument (last (requests (snd (logDataToMezmo rt m ld w))))))
            < maxBodySize rt)"
proof (intro impI, elim conjE)
  assume big: "13 < maxBodySize rt"
    and fits: "\<forall>line \<in> set (normalized rt ld). \<forall>bs. jsonMarshal rt line = Inr bs
          \<longrightarrow> int (length bs) + 13 < maxBodySize rt"
  let ?lines = "normalized rt ld"
  let ?loop = "sendBatches rt m 0 ?lines docOpen w"
  have start: "int (length docOpen) + 3 \<le> maxBodySize rt"
    using big by (simp add: docOpen_def)
  from sendBatches_size [OF fits start, of m 0 w]
  obtain rs where rs: "requests (snd ?loop) = requests w @ rs"
    "\<forall>r \<in> set rs. (trailingComma (reqDocument r) \<or> int (length (reqDocument r)) < maxBodySize rt)
       \<and> madeFrom rt m r"
    "\<forall>b'. fst ?loop = Inr b' \<longrightarrow> int (length b') + 3 \<le> maxBodySize rt"
    by blast
  obtain res w1 where loop: "?loop = (res, w1)"
    by (cases ?loop)
  show "(\<forall>r \<in> set (issued w (snd (logDataToMezmo rt m ld w))).
          (\<not> trailingComma (reqDocument r)
             \<longrightarrow> int (length (reqDocument r)) < maxBodySize rt)
          \<and> requestBody rt m (reqDocument r) = Inr (reqBody r))
     \<and> (fst (logDataToMezmo rt m ld w) = None \<longrightarrow>
          int (length (reqDocument (last (requests (snd (logDataToMezmo rt m ld w))))))
            < maxBodySize rt)"
  proof (cases res)
    case (Inl e)
    then have "logDataToMezmo rt m ld w = (Some e, w1)"
      using loop by (simp add: logDataToMezmo_def convertResources_normalized)
    then show ?thesis
      using rs(1,2) loop by (auto simp: issued_def madeFrom_def)
  next
    case (Inr b)
    then have push: "logDataToMezmo rt m ld w = sendLinesToMezmo rt m (b @ docClose) w1"
      using loop by (simp add: logDataToMezmo_def convertResources_normalized)
    have b: "int (length (b @ docClose)) < maxBodySize rt"
      using rs(3) loop Inr by (simp add: docClose_def)
    obtain rs' where rs': "requests (snd (sendLinesToMezmo rt m (b @ docClose) w1)) = requests w1 @ rs'"
      "\<forall>r \<in> set rs'. reqDocument r = b @ docClose \<and> madeFrom rt m r"
      using send_requests_cases [of rt m "b @ docClose" w1] by blast
    have all: "issued w (snd (logDataToMezmo rt m ld w)) = rs @ rs'"
      using rs(1) rs'(1) loop push by (simp add: issued_def)
    have "int (length (reqDocument (last (requests (snd (logDataToMezmo rt m ld w))))))
            < maxBodySize rt"
      if "fst (logDataToMezmo rt m ld w) = None"
    proof -
      let ?w' = "snd (logDataToMezmo rt m ld w)"
      have "sendLinesToMezmo rt m (b @ docClose) w1 = (None, ?w')"
        using that push by (simp add: prod_eq_iff)
      then obtain req where "requests ?w' = requests w1 @ [req]" "reqDocument req = b @ docClose"
        using send_ok_requests [of rt m "b @ docClose" w1 ?w'] by blast
      then show ?thesis using b by simp
    qed
    then show ?thesis
      using all rs(2) rs'(2) b by (auto simp: madeFrom_def)
  qed
qed

theorem body_size_bound_witness:
  \<open>maxBodySize (sampleRuntime 200) = 200
   \<and> map (\<lambda>l. length (encoded (sampleRuntime 200) l)) (normalized (sampleRuntime 200) scenarioBatch)
       = [78, 78, 60]
   \<and> map (\<lambda>r. (trailingComma (reqDocument r), length (reqDocument r)))
       (issued emptyWorld (snd (logDataToMezmo (sampleRuntime 200) sampleExporter
          scenarioBatch emptyWorld)))
     = [(True, 171), (False, 73)]
   \<and> list_all (\<lambda>r. trailingComma (reqDocument r)
                    \<or> int (length (reqDocument r)) < maxBodySize (sampleRuntime 200))
       (issued emptyWorld (snd (logDataToMezmo (sampleRuntime 200) sampleExporter
          scenarioBatch emptyWorld)))
   \<and> int (length (reqDocument (last (requests (snd (logDataToMezmo (sampleRuntime 200)
          sampleExporter scenarioBatch emptyWorld))))))
       < maxBodySize (sampleRuntime 200)\<close>
proof -
  let ?rt = "sampleRuntime 200"
  let ?push = "logDataToMezmo ?rt sampleExporter scenarioBatch emptyWorld"
  have big: "13 < maxBodySize ?rt"
    by (simp add: sample_defs)
  have sizes: "map (\<lambda>l. length (encoded ?rt l)) (normalized ?rt scenarioBatch) = [78, 78, 60]"
    by (simp add: scenarioBatch_def sample_defs convert_defs marshal_defs encoded_def
          convertResources_normalized [symmetric])
  have "\<forall>line \<in> set (normalized ?rt scenarioBatch). int (length (encoded ?rt line)) + 13 < 200"
    using sizes by (simp add: list_eq_iff_nth_eq all_set_conv_all_nth less_Suc_eq)
  then have fits: "\<forall>line \<in> set (normalized ?rt scenarioBatch). \<forall>bs. jsonMarshal ?rt line = Inr bs
          \<longrightarrow> int (length bs) + 13 < maxBodySize ?rt"
    by (auto simp: encoded_def sample_defs)
  have ok: "fst ?push = None"
    by (simp add: scenarioBatch_def sample_defs convert_defs marshal_defs send_defs)
  have docs: "map (\<lambda>r. (trailingComma (reqDocument r), length (reqDocument r)))
       (issued emptyWorld (snd ?push)) = [(True, 171), (False, 73)]"
    by (simp add: issued_def trailingComma_def scenarioBatch_def sample_defs convert_defs
          marshal_defs send_defs)
  from body_size_bound [of ?rt scenarioBatch emptyWorld sampleExporter] big fits ok
  have "\<forall>r \<in> set (issued emptyWorld (snd ?push)).
          \<not> trailingComma (reqDocument r) \<longrightarrow> int (length (reqDocument r)) < maxBodySize ?rt"
    and "int (length (reqDocument (last (requests (snd ?push))))) < maxBodySize ?rt"
    by blast+
  with docs sizes big show ?thesis
    by (auto simp: list_all_iff sample_defs)
qed

subsection \<open>The text of the documents\<close>

text \<open>
  Claim C2 on a concrete batch: with a limit of 80 bytes and two records whose lines have
  60 bytes each, the push makes two requests, and the body of the first ends with a comma
  before the closing \<open>]}\<close>.
\<close>

theorem trailing_comma_document:
  \<open>maxBodySize (sampleRuntime 80) = 80
   \<and> fst (logDataToMezmo (sampleRuntime 80) sampleExporter
          (sampleBatch [sampleRecord 1000000 ''a'', sampleRecord 2000000 ''b'']) emptyWorld) = None
   \<and> map reqBody (requests (snd (logDataToMezmo (sampleRuntime 80) sampleExporter
          (sampleBatch [sampleRecord 1000000 ''a'', sampleRecord 2000000 ''b'']) emptyWorld)))
     = [''{"lines": [{"timestamp":1,"line":"a","app":"","level":"info","meta":{}},]}'',
        ''{"lines": [{"timestamp":2,"line":"b","app":"","level":"info","meta":{}}]}'']\<close>
  by (simp add: sample_defs convert_defs marshal_defs send_defs)

text \<open>
  A push that loses a line: the endpoint cannot be reached, the first request (the
  document closed before the third line) fails, the push returns the transport error, and
  the line \<open>c\<close> is in no document.
\<close>

theorem dropped_line_counterexample:
  \<open>map Line (normalized (sampleRuntime 200) scenarioBatch) = [''a'', ''b'', ''c'']
   \<and> fst (logDataToMezmo (sampleRuntime 200) (refusing sampleExporter) scenarioBatch emptyWorld)
       = Some (ErrPost ''connection refused'')
   \<and> map reqBody (requests (snd
        (logDataToMezmo (sampleRuntime 200) (refusing sampleExporter) scenarioBatch emptyWorld)))
       = [''{"lines": [{"timestamp":1,"line":"a","app":"","level":"info","meta":{"hostname":"web-1"}},{"timestamp":2,"line":"b","app":"","level":"info","meta":{"hostname":"web-1"}},]}'']\<close>
  by (simp add: refusing_def scenarioBatch_def sample_defs convert_defs marshal_defs send_defs
        convertResources_normalized [symmetric])

lemma carries_flushedDocument: "carries rt (flushedDocument (map (encoded rt) run)) run"
proof (cases "run = []")
  case True
  then show ?thesis
    by (simp add: carries_def linesText_def flushedDocument_def document_def)
next
  case False
  let ?p = "linesText rt run"
  have "flushedDocument (map (encoded rt) run) = ?p @ '',]}''"
    using False by (simp add: flushedDocument_def linesText_def docClose_def)
  then show ?thesis
    by (simp add: carries_def trailingComma_def)
qed

lemma carries_flushed_runs:
  "list_all2 (carries rt) (map (\<lambda>c. flushedDocument (map (encoded rt) c)) chunks) chunks"
  by (induction chunks) (simp_all add: carries_flushedDocument)

text \<open>
  Claim C3, amended. When a push returns no error, the lines of the batch (every record
  converted, in the order resources, scopes, records) split into consecutive runs, one
  for every request the push made, in the order of the requests, no line in two runs or
  in none. The document of the last request is the spec's document of the last run: the
  opening, the encodings of its lines separated by commas, the closing. The document of
  every earlier request starts with the opening and the encodings of the lines of its
  run separated by commas, and is the spec's document of its run unless it ends with a
  comma before the closing: of what follows the lines in such a document nothing is
  said. Every line was encoded by \<open>json.Marshal\<close> without error, and the body of every
  request is made from its document (it is the document when compression is off).
\<close>

theorem lines_complete_and_ordered:
  "logDataToMezmo rt m ld w = (None, w') \<longrightarrow>
     (\<exists>chunks final.
        concat chunks @ final = normalized rt ld
      \<and> issued w w' \<noteq> []
      \<and> list_all2 (carries rt) (map reqDocument (butlast (issued w w'))) chunks
      \<and> reqDocument (last (issued w w')) = document (map (encoded rt) final)
      \<and> (\<forall>l \<in> set (normalized rt ld). jsonMarshal rt l = Inr (encoded rt l))
      \<and> (\<forall>r \<in> set (issued w w'). requestBody rt m (reqDocument r) = Inr (reqBody r)))"
proof
  assume "logDataToMezmo rt m ld w = (None, w')"
  from push_documents [OF this]
  obtain chunks final where p:
    "concat chunks @ final = normalized rt ld"
    "map reqDocument (issued w w') =
       map (\<lambda>c. flushedDocument (map (encoded rt) c)) chunks @ [document (map (encoded rt) final)]"
    "\<forall>l \<in> set (normalized rt ld). jsonMarshal rt l = Inr (encoded rt l)"
    "\<forall>r \<in> set (issued w w'). madeFrom rt m r"
    by blast
  have ne: "issued w w' \<noteq> []"
    using p(2) by auto
  have "map reqDocument (butlast (issued w w')) = butlast (map reqDocument (issued w w'))"
    by (simp add: map_butlast)
  then have early: "map reqDocument (butlast (issued w w'))
                      = map (\<lambda>c. flushedDocument (map (encoded rt) c)) chunks"
    by (simp add: p(2))
  have "reqDocument (last (issued w w')) = last (map reqDocument (issued w w'))"
    using ne by (simp add: last_map)
  then have final: "reqDocument (last (issued w w')) = document (map (encoded rt) final)"
    by (simp add: p(2))
  show "\<exists>chunks final.
        concat chunks @ final = normalized rt ld
      \<and> issued w w' \<noteq> []
      \<and> list_all2 (carries rt) (map reqDocument (butlast (issued w w'))) chunks
      \<and> reqDocument (last (issued w w')) = document (map (encoded rt) final)
      \<and> (\<forall>l \<in> set (normalized rt ld). jsonMarshal rt l = Inr (encoded rt l))
      \<and> (\<forall>r \<in> set (issued w w'). requestBody rt m (reqDocument r) = Inr (reqBody r))"
    using p(1,3,4) ne final carries_flushed_runs [of rt chunks]
    unfolding early madeFrom_def
    by (intro exI [of _ chunks] exI [of _ final]) simp
qed

theorem lines_complete_and_ordered_witness:
  \<open>fst (logDataToMezmo (sampleRuntime 200) sampleExporter scenarioBatch emptyWorld) = None
   \<and> map (\<lambda>l. (Timestamp l, Line l, Meta l ''hostname''))
        (normalized (sampleRuntime 200) scenarioBatch)
       = [(1, ''a'', Some ''web-1''), (2, ''b'', Some ''web-1''), (3, ''c'', None)]
   \<and> map (\<lambda>r. take 168 (reqDocument r)) (butlast (issued emptyWorld
        (snd (logDataToMezmo (sampleRuntime 200) sampleExporter scenarioBatch emptyWorld))))
       = [''{"lines": [{"timestamp":1,"line":"a","app":"","level":"info","meta":{"hostname":"web-1"}},{"timestamp":2,"line":"b","app":"","level":"info","meta":{"hostname":"web-1"}}'']
   \<and> reqDocument (last (issued emptyWorld
        (snd (logDataToMezmo (sampleRuntime 200) sampleExporter scenarioBatch emptyWorld))))
       = ''{"lines": [{"timestamp":3,"line":"c","app":"","level":"info","meta":{}}]}''
   \<and> (\<exists>chunks final.
        concat chunks @ final = normalized (sampleRuntime 200) scenarioBatch
      \<and> list_all2 (carries (sampleRuntime 200))
           (map reqDocument (butlast (issued emptyWorld
              (snd (logDataToMezmo (sampleRuntime 200) sampleExporter scenarioBatch emptyWorld)))))
           chunks
      \<and> reqDocument (last (issued emptyWorld
           (snd (logDataToMezmo (sampleRuntime 200) sampleExporter scenarioBatch emptyWorld))))
          = document (map (encoded (sampleRuntime 200)) final))\<close>
proof -
  let ?rt = "sampleRuntime 200"
  let ?push = "logDataToMezmo ?rt sampleExporter scenarioBatch emptyWorld"
  have ok: "fst ?push = None"
    by (simp add: scenarioBatch_def sample_defs convert_defs marshal_defs send_defs)
  then have h: "?push = (None, snd ?push)"
    by (simp add: prod_eq_iff)
  have lines: "map (\<lambda>l. (Timestamp l, Line l, Meta l ''hostname'')) (normalized ?rt scenarioBatch)
       = [(1, ''a'', Some ''web-1''), (2, ''b'', Some ''web-1''), (3, ''c'', None)]"
    by (simp add: scenarioBatch_def sample_defs convert_defs convertResources_normalized [symmetric])
  have early: \<open>map (\<lambda>r. take 168 (reqDocument r)) (butlast (issued emptyWorld (snd ?push)))
       = [''{"lines": [{"timestamp":1,"line":"a","app":"","level":"info","meta":{"hostname":"web-1"}},{"timestamp":2,"line":"b","app":"","level":"info","meta":{"hostname":"web-1"}}'']\<close>
    by (simp add: issued_def scenarioBatch_def sample_defs convert_defs marshal_defs send_defs)
  have final: \<open>reqDocument (last (issued emptyWorld (snd ?push)))
       = ''{"lines": [{"timestamp":3,"line":"c","app":"","level":"info","meta":{}}]}''\<close>
    by (simp add: issued_def scenarioBatch_def sample_defs convert_defs marshal_defs send_defs)
  from lines_complete_and_ordered [of ?rt sampleExporter scenarioBatch emptyWorld "snd ?push"] h
  have "\<exists>chunks final.
        concat chunks @ final = normalized ?rt scenarioBatch
      \<and> list_all2 (carries ?rt) (map reqDocument (butlast (issued emptyWorld (snd ?push)))) chunks
      \<and> reqDocument (last (issued emptyWorld (snd ?push))) = document (map (encoded ?rt) final)"
    by blast
  with ok lines early final show ?thesis
    by (simp only:)
qed

end
